theory Spec2Isabelle
  imports Main
begin

section \<open>Vocabulary shared by the three collector scripts\<close>

text \<open>
  The repository holds three scripts, \<^verbatim>\<open>aws/main.py\<close>, \<^verbatim>\<open>azure/main.py\<close> and
  \<^verbatim>\<open>gcp/main.py\<close>. Each one reads a cloud inventory, folds it into a dictionary
  \<^verbatim>\<open>iplists\<close> from group names to address lists and sends every entry to the SMC with
  \<^verbatim>\<open>IPList.update_or_create\<close>. The cloud SDKs and the SMC client are not part of the
  repository: they are parameters of the model (records of functions), and what a script
  prints or sends is recorded as a list of events. Calls to the logger are left out.
\<close>

datatype error = ClientError | KeyError | IndexError | TypeError | NotAMapping | SMCError

datatype outcome = Exit nat | Raised error | Diverged

text \<open>How an iteration over one of the paging generators ends.\<close>

datatype stop = Exhausted | Threw error | Unfinished

type_synonym 'a aggregate = "(string \<times> 'a list) list"

datatype ('p, 'a) event =
    SessionLogin
  | PrintLine string
  | PPrint 'p
  | PPrintIplists "'a aggregate"
  | UpdateOrCreate string "'a list" bool

text \<open>
  The SMC client: \<^verbatim>\<open>session.login()\<close> and
  \<^verbatim>\<open>IPList.update_or_create(name=, iplist=, append_lists=)\<close>. A call either raises or
  returns the element, of which the scripts only print the text.
\<close>

record 'a smc =
  session_login :: "error option"
  update_or_create :: "string \<Rightarrow> 'a list \<Rightarrow> bool \<Rightarrow> error + string"

text \<open>Truth value of an optional string argument (\<^verbatim>\<open>if config.region:\<close>).\<close>

definition truthy :: "string option \<Rightarrow> bool" where
  "truthy s = (case s of None \<Rightarrow> False | Some v \<Rightarrow> v \<noteq> [])"

text \<open>
  \<^verbatim>\<open>iplists.setdefault(name, []).extend(addrs)\<close> on a dictionary that keeps insertion
  order: an association list whose new keys go to the end.
\<close>

fun setdefault_extend :: "string \<Rightarrow> 'a list \<Rightarrow> 'a aggregate \<Rightarrow> 'a aggregate" where
  "setdefault_extend name addrs [] = [(name, addrs)]"
| "setdefault_extend name addrs ((k, v) # rest) =
     (if k = name then (k, v @ addrs) # rest
      else (k, v) # setdefault_extend name addrs rest)"

text \<open>\<^verbatim>\<open>d[k] = v\<close> on an insertion-ordered dictionary.\<close>

fun dict_set :: "'k \<Rightarrow> 'v \<Rightarrow> ('k \<times> 'v) list \<Rightarrow> ('k \<times> 'v) list" where
  "dict_set k v [] = [(k, v)]"
| "dict_set k v ((k', v') # rest) =
     (if k' = k then (k', v) # rest else (k', v') # dict_set k v rest)"

text \<open>\<^verbatim>\<open>s.replace(' ', '_')\<close> and \<^verbatim>\<open>s.split(sep)\<close> for a one-character separator.\<close>

definition replace_space :: "string \<Rightarrow> string" where
  "replace_space s = map (\<lambda>c. if c = CHR '' '' then CHR ''_'' else c) s"

fun split_on :: "char \<Rightarrow> string \<Rightarrow> string list" where
  "split_on sep [] = [[]]"
| "split_on sep (c # cs) =
     (if c = sep then [] # split_on sep cs
      else (case split_on sep cs of [] \<Rightarrow> [[c]] | w # ws \<Rightarrow> (c # w) # ws))"

text \<open>
  The publish loop, the same in the three scripts:
  \<^verbatim>\<open>
  for listname, ipaddrs in iplists.items():
      thelist = IPList.update_or_create(name=listname, iplist=ipaddrs, append_lists=False)
      print(f"Operated on iplist {thelist}")
  sys.exit(0)
  \<close>
  There is no \<^verbatim>\<open>try\<close> around the call: an exception leaves the loop and the script.
\<close>

fun publish :: "'a smc \<Rightarrow> 'a aggregate \<Rightarrow> ('p, 'a) event list \<times> outcome" where
  "publish smc [] = ([], Exit 0)"
| "publish smc ((listname, ipaddrs) # rest) =
     (case update_or_create smc listname ipaddrs False of
        Inl e \<Rightarrow> ([UpdateOrCreate listname ipaddrs False], Raised e)
      | Inr thelist \<Rightarrow>
          (case publish smc rest of
             (evs, out) \<Rightarrow>
               (UpdateOrCreate listname ipaddrs False
                  # PrintLine (''Operated on iplist '' @ thelist) # evs, out)))"

text \<open>Reading the trace of a run.\<close>

fun is_publish_call :: "('p, 'a) event \<Rightarrow> bool" where
  "is_publish_call (UpdateOrCreate name iplist append_lists) = True"
| "is_publish_call _ = False"

definition publish_calls :: "('p, 'a) event list \<Rightarrow> ('p, 'a) event list" where
  "publish_calls evs = filter is_publish_call evs"

fun is_login :: "('p, 'a) event \<Rightarrow> bool" where
  "is_login SessionLogin = True"
| "is_login _ = False"

definition logins :: "('p, 'a) event list \<Rightarrow> ('p, 'a) event list" where
  "logins evs = filter is_login evs"

fun printed_iplists :: "('p, 'a) event list \<Rightarrow> 'a aggregate list" where
  "printed_iplists [] = []"
| "printed_iplists (PPrintIplists agg # evs) = agg # printed_iplists evs"
| "printed_iplists (_ # evs) = printed_iplists evs"

text \<open>
  The calls that send every entry of a dictionary, in its order, with its whole address
  list and \<^verbatim>\<open>append_lists=False\<close>.
\<close>

definition full_replace_calls :: "'a aggregate \<Rightarrow> ('p, 'a) event list" where
  "full_replace_calls iplists = map (\<lambda>(name, addrs). UpdateOrCreate name addrs False) iplists"

text \<open>The address list of a group, empty for a group the dictionary does not have.\<close>

definition addresses_of :: "'a aggregate \<Rightarrow> string \<Rightarrow> 'a list" where
  "addresses_of iplists name = (case map_of iplists name of None \<Rightarrow> [] | Some v \<Rightarrow> v)"

section \<open>aws/main.py\<close>

subsection \<open>What boto3 returns\<close>

record aws_tag =
  Key :: "string option"
  Value :: "string option"

record network_interface =
  PrivateIpAddresses :: "string option list option"

record placement_dict =
  AvailabilityZone :: "string option"

record raw_instance =
  Tags :: "aws_tag list option"
  Placement :: "placement_dict option"
  NetworkInterfaces :: "network_interface list option"
  VpcId :: "string option"

record reservation =
  Instances :: "raw_instance list option"

record instances_result =
  Reservations :: "reservation list option"
  NextToken :: "string option"

record raw_vpc =
  vpc_Tags :: "aws_tag list option"
  vpc_VpcId :: "string option"

record vpcs_result =
  Vpcs :: "raw_vpc list option"
  vpcs_NextToken :: "string option"

record aws_filter =
  Name :: string
  Values :: "string list"

record pagination_config =
  MaxItems :: int
  StartingToken :: "string option"

text \<open>
  \<^verbatim>\<open>ec2_client.get_paginator(op).paginate(Filters=, PaginationConfig=).build_full_result()\<close>
  for the two operations the script uses. A private address entry is modelled by its
  \<^verbatim>\<open>PrivateIpAddress\<close> field, which \<^verbatim>\<open>.get\<close> reads as \<^verbatim>\<open>None\<close> when it is missing.
\<close>

record ec2_client =
  paginate_describe_vpcs :: "aws_filter list \<Rightarrow> pagination_config \<Rightarrow> error + vpcs_result"
  paginate_describe_instances :: "aws_filter list \<Rightarrow> pagination_config \<Rightarrow> error + instances_result"

subsection \<open>The normalized records\<close>

record vpc_page =
  vpc_name :: string
  vpc_id :: "string option"

record ec2_instance =
  aws_name :: string
  aws_vpc_id :: "string option"
  aws_tags :: "aws_tag list"
  aws_private_address :: "string option list"
  aws_placement :: string

definition name_filters :: "string option \<Rightarrow> aws_filter list" where
  "name_filters name =
     (case name of
        None \<Rightarrow> [\<lparr>Name = ''tag:Name'', Values = [''*'']\<rparr>]
      | Some n \<Rightarrow>
          (if n \<noteq> [] then [\<lparr>Name = ''tag:Name'', Values = [n]\<rparr>]
           else [\<lparr>Name = ''tag:Name'', Values = [''*'']\<rparr>]))"

definition make_pagination_config :: "int \<Rightarrow> string option \<Rightarrow> pagination_config" where
  "make_pagination_config max_items next_token =
     \<lparr>MaxItems = max_items,
      StartingToken = (if truthy next_token then next_token else None)\<rparr>"

text \<open>The loop over the tags of a VPC stops at the first \<^verbatim>\<open>Name\<close> tag.\<close>

fun first_name_tag :: "aws_tag list \<Rightarrow> string option" where
  "first_name_tag [] = None"
| "first_name_tag (tag # tags) =
     (if Key tag = Some ''Name'' then Value tag else first_name_tag tags)"

definition name_or_unknown :: "string option \<Rightarrow> string" where
  "name_or_unknown n = (case n of None \<Rightarrow> ''Unknown'' | Some v \<Rightarrow> if v = [] then ''Unknown'' else v)"

definition normalize_vpc :: "raw_vpc \<Rightarrow> vpc_page" where
  "normalize_vpc page =
     \<lparr>vpc_name = name_or_unknown
        (first_name_tag (case vpc_Tags page of None \<Rightarrow> [] | Some ts \<Rightarrow> ts)),
      vpc_id = vpc_VpcId page\<rparr>"

definition describe_vpcs ::
  "ec2_client \<Rightarrow> string option \<Rightarrow> string option \<Rightarrow> int \<Rightarrow> error + (vpc_page list \<times> string option)" where
  "describe_vpcs client name next_token max_items =
     (case paginate_describe_vpcs client (name_filters name)
             (make_pagination_config max_items next_token) of
        Inl e \<Rightarrow> Inl e
      | Inr full_result \<Rightarrow>
          (case Vpcs full_result of
             None \<Rightarrow> Inl KeyError
           | Some vpcs \<Rightarrow> Inr (map normalize_vpc vpcs, vpcs_NextToken full_result)))"

text \<open>
  The generators \<^verbatim>\<open>describe_vpc_all\<close> and \<^verbatim>\<open>describe_instances_all\<close> yield the first page
  and then loop \<^verbatim>\<open>while next_token is not None\<close>. Nothing in the script bounds that loop,
  so the model counts the later requests with a fuel argument and ends a run that needs
  more as \<^const>\<open>Unfinished\<close>. The pages yielded before an exception are kept: the
  consumer has seen them.
\<close>

fun describe_vpc_rest ::
  "nat \<Rightarrow> ec2_client \<Rightarrow> int \<Rightarrow> string option \<Rightarrow> vpc_page list list \<times> stop" where
  "describe_vpc_rest fuel client page_size None = ([], Exhausted)"
| "describe_vpc_rest 0 client page_size (Some token) = ([], Unfinished)"
| "describe_vpc_rest (Suc fuel) client page_size (Some token) =
     (case describe_vpcs client None (Some token) page_size of
        Inl e \<Rightarrow> ([], Threw e)
      | Inr (result, next_token) \<Rightarrow>
          (case describe_vpc_rest fuel client page_size next_token of
             (pages, s) \<Rightarrow> (result # pages, s)))"

definition describe_vpc_all :: "nat \<Rightarrow> ec2_client \<Rightarrow> int \<Rightarrow> vpc_page list list \<times> stop" where
  "describe_vpc_all fuel client page_size =
     (case describe_vpcs client None None page_size of
        Inl e \<Rightarrow> ([], Threw e)
      | Inr (first_result, next_token) \<Rightarrow>
          (case describe_vpc_rest fuel client page_size next_token of
             (pages, s) \<Rightarrow> (first_result # pages, s)))"

definition instance_filters :: "string option \<Rightarrow> string list \<Rightarrow> aws_filter list" where
  "instance_filters name ec2_states =
     name_filters name @
     (if ec2_states \<noteq> [] then [\<lparr>Name = ''instance-state-name'', Values = ec2_states\<rparr>] else [])"

text \<open>
  The loop over the tags of an instance has no \<^verbatim>\<open>break\<close>: the last \<^verbatim>\<open>Name\<close> tag gives
  the name, every other tag is kept for grouping, in order.
\<close>

fun scan_tags :: "aws_tag list \<Rightarrow> string option \<Rightarrow> aws_tag list \<Rightarrow> string option \<times> aws_tag list" where
  "scan_tags [] instance_name tags = (instance_name, tags)"
| "scan_tags (tag # rest) instance_name tags =
     (if Key tag = Some ''Name'' then scan_tags rest (Value tag) tags
      else scan_tags rest instance_name (tags @ [tag]))"

definition collect_addresses :: "network_interface list \<Rightarrow> string option list" where
  "collect_addresses nis =
     concat (map (\<lambda>ni. case PrivateIpAddresses ni of None \<Rightarrow> [] | Some ps \<Rightarrow> ps) nis)"

definition normalize_instance :: "raw_instance \<Rightarrow> ec2_instance" where
  "normalize_instance inst =
     (case scan_tags (case Tags inst of None \<Rightarrow> [] | Some ts \<Rightarrow> ts) None [] of
        (instance_name, tags) \<Rightarrow>
          \<lparr>aws_name = name_or_unknown instance_name,
           aws_vpc_id = VpcId inst,
           aws_tags = tags,
           aws_private_address =
             collect_addresses (case NetworkInterfaces inst of None \<Rightarrow> [] | Some nis \<Rightarrow> nis),
           aws_placement =
             (case Placement inst of
                None \<Rightarrow> ''unknown''
              | Some p \<Rightarrow> (case AvailabilityZone p of None \<Rightarrow> ''unknown'' | Some az \<Rightarrow> az))\<rparr>)"

definition describe_instances ::
  "ec2_client \<Rightarrow> string option \<Rightarrow> string option \<Rightarrow> string list \<Rightarrow> int
     \<Rightarrow> error + (ec2_instance list \<times> string option)" where
  "describe_instances client name next_token ec2_states max_items =
     (case paginate_describe_instances client (instance_filters name ec2_states)
             (make_pagination_config max_items next_token) of
        Inl e \<Rightarrow> Inl e
      | Inr full_result \<Rightarrow>
          Inr (map normalize_instance
                 (concat (map (\<lambda>page. case Instances page of None \<Rightarrow> [] | Some is \<Rightarrow> is)
                    (case Reservations full_result of None \<Rightarrow> [] | Some rs \<Rightarrow> rs))),
               NextToken full_result))"

fun describe_instances_rest ::
  "nat \<Rightarrow> ec2_client \<Rightarrow> string list \<Rightarrow> int \<Rightarrow> string option \<Rightarrow> ec2_instance list list \<times> stop" where
  "describe_instances_rest fuel client ec2_states page_size None = ([], Exhausted)"
| "describe_instances_rest 0 client ec2_states page_size (Some token) = ([], Unfinished)"
| "describe_instances_rest (Suc fuel) client ec2_states page_size (Some token) =
     (case describe_instances client None (Some token) ec2_states page_size of
        Inl e \<Rightarrow> ([], Threw e)
      | Inr (result, next_token) \<Rightarrow>
          (case describe_instances_rest fuel client ec2_states page_size next_token of
             (pages, s) \<Rightarrow> (result # pages, s)))"

definition describe_instances_all ::
  "nat \<Rightarrow> ec2_client \<Rightarrow> string list \<Rightarrow> int \<Rightarrow> ec2_instance list list \<times> stop" where
  "describe_instances_all fuel client ec2_states page_size =
     (case describe_instances client None None ec2_states page_size of
        Inl e \<Rightarrow> ([], Threw e)
      | Inr (first_result, next_token) \<Rightarrow>
          (case describe_instances_rest fuel client ec2_states page_size next_token of
             (pages, s) \<Rightarrow> (first_result # pages, s)))"

subsection \<open>The script\<close>

record aws_config =
  aws_debug :: bool
  aws_region :: "string option"
  aws_page_size :: int
  aws_ec2_states :: "string option"
  aws_skip_vpc_discovery :: bool
  aws_untagged_group :: "string option"
  aws_tag_filters :: "string option"
  aws_report_only :: bool

text \<open>\<^verbatim>\<open>boto3.client('ec2', region_name=)\<close> and the SMC.\<close>

record aws_env =
  boto3_client :: "string option \<Rightarrow> ec2_client"
  aws_smc :: "string option smc"

datatype aws_printed = PrintedVpcs "vpc_page list list" | PrintedBatch "ec2_instance list"

type_synonym aws_event = "(aws_printed, string option) event"

text \<open>
  The name of the group of one tag:
  \<^verbatim>\<open>
  key = tag.get('Key', '').replace(' ', '_')
  value = tag.get('Value', '').replace(' ', '_')
  name = f"{key}_{value}"
  \<close>
\<close>

definition aws_group_name :: "aws_tag \<Rightarrow> string" where
  "aws_group_name tag =
     (let key = replace_space (case Key tag of None \<Rightarrow> [] | Some k \<Rightarrow> k);
          value = replace_space (case Value tag of None \<Rightarrow> [] | Some v \<Rightarrow> v)
      in key @ ''_'' @ value)"

fun aws_add_tags :: "aws_tag list \<Rightarrow> 'a list \<Rightarrow> 'a aggregate \<Rightarrow> 'a aggregate" where
  "aws_add_tags [] addrs iplists = iplists"
| "aws_add_tags (tag # tags) addrs iplists =
     aws_add_tags tags addrs (setdefault_extend (aws_group_name tag) addrs iplists)"

definition aws_untagged_name :: "aws_config \<Rightarrow> ec2_instance \<Rightarrow> string" where
  "aws_untagged_name config inst =
     (if truthy (aws_untagged_group config)
      then (case aws_untagged_group config of Some g \<Rightarrow> g | None \<Rightarrow> [])
      else ''untagged-aws-'' @ aws_placement inst)"

definition aws_add_instance ::
  "aws_config \<Rightarrow> ec2_instance \<Rightarrow> string option aggregate \<Rightarrow> string option aggregate" where
  "aws_add_instance config inst iplists =
     (if aws_tags inst \<noteq> []
      then aws_add_tags (aws_tags inst) (aws_private_address inst) iplists
      else setdefault_extend (aws_untagged_name config inst) (aws_private_address inst) iplists)"

fun aws_add_batch ::
  "aws_config \<Rightarrow> ec2_instance list \<Rightarrow> string option aggregate \<Rightarrow> string option aggregate" where
  "aws_add_batch config [] iplists = iplists"
| "aws_add_batch config (inst # batch) iplists =
     aws_add_batch config batch (aws_add_instance config inst iplists)"

fun aws_add_batches ::
  "aws_config \<Rightarrow> ec2_instance list list \<Rightarrow> string option aggregate \<Rightarrow> string option aggregate" where
  "aws_add_batches config [] iplists = iplists"
| "aws_add_batches config (batch # batches) iplists =
     aws_add_batches config batches (aws_add_batch config batch iplists)"

definition stop_outcome :: "stop \<Rightarrow> outcome" where
  "stop_outcome s = (case s of Threw e \<Rightarrow> Raised e | Unfinished \<Rightarrow> Diverged | Exhausted \<Rightarrow> Exit 0)"

text \<open>
  The body of the script after the arguments are parsed, in the order of the source: the
  client, the VPC discovery, the states, the report loop, the login, the aggregation
  loop over a second listing, and the report or the publish loop. The client is a
  function, so the two listings give the same pages.
\<close>

definition aws_client :: "aws_env \<Rightarrow> aws_config \<Rightarrow> ec2_client" where
  "aws_client env config =
     boto3_client env (if truthy (aws_region config) then aws_region config else None)"

definition aws_states :: "aws_config \<Rightarrow> string list" where
  "aws_states config =
     (if truthy (aws_ec2_states config)
      then split_on CHR '','' (case aws_ec2_states config of Some s \<Rightarrow> s | None \<Rightarrow> [])
      else [])"

definition aws_listing :: "nat \<Rightarrow> aws_env \<Rightarrow> aws_config \<Rightarrow> ec2_instance list list \<times> stop" where
  "aws_listing fuel env config =
     describe_instances_all fuel (aws_client env config) (aws_states config) (aws_page_size config)"

definition aws_iplists :: "nat \<Rightarrow> aws_env \<Rightarrow> aws_config \<Rightarrow> string option aggregate" where
  "aws_iplists fuel env config = aws_add_batches config (fst (aws_listing fuel env config)) []"

definition aws_main :: "nat \<Rightarrow> aws_env \<Rightarrow> aws_config \<Rightarrow> aws_event list \<times> outcome" where
  "aws_main fuel env config =
     (let (vpc_ids, vstop) =
            (if aws_skip_vpc_discovery config then ([], Exhausted)
             else describe_vpc_all fuel (aws_client env config) (aws_page_size config));
          (batches, istop) = aws_listing fuel env config;
          iplists = aws_iplists fuel env config
      in if vstop \<noteq> Exhausted then ([], stop_outcome vstop)
         else if aws_report_only config then
           (let report = PPrint (PrintedVpcs vpc_ids) # map (\<lambda>batch. PPrint (PrintedBatch batch)) batches
            in if istop \<noteq> Exhausted then (report, stop_outcome istop)
               else (report @ [PPrintIplists iplists], Exit 0))
         else
           (case session_login (aws_smc env) of
              Some e \<Rightarrow> ([SessionLogin], Raised e)
            | None \<Rightarrow>
                if istop \<noteq> Exhausted then ([SessionLogin], stop_outcome istop)
                else (case publish (aws_smc env) iplists of
                        (evs, out) \<Rightarrow> (SessionLogin # evs, out))))"

section \<open>azure/main.py\<close>

text \<open>
  A virtual machine as the compute client lists it: its name, id, tags (a dictionary or
  \<^verbatim>\<open>None\<close>) and the ids of the interfaces of its network profile.
\<close>

record virtual_machine =
  vm_name :: string
  vm_vm_id :: string
  vm_tags :: "(string \<times> string) list option"
  vm_network_interfaces :: "string list"

record vm_d =
  az_name :: string
  az_vm_id :: string
  az_tags :: "(string \<times> string) list"
  az_interface_ids :: "(string \<times> string) list"
  az_private_address :: "string list"

record azure_config =
  az_debug :: bool
  az_subscription :: "string option"
  az_resource_group :: "string option"
  az_report_only :: bool

text \<open>
  The Azure clients: the subscription ids that \<^verbatim>\<open>subscriptions.list()\<close> gives, the machines
  of \<^verbatim>\<open>virtual_machines.list_all()\<close> for a subscription, and the private addresses of the
  IP configurations of \<^verbatim>\<open>network_interfaces.get(resource_group, interface_name)\<close>.
\<close>

record azure_env =
  subscriptions_list :: "string list"
  virtual_machines_list_all :: "string \<Rightarrow> virtual_machine list"
  network_interfaces_get :: "string \<Rightarrow> string \<Rightarrow> string \<Rightarrow> string list"
  az_smc :: "string smc"

type_synonym azure_result = "(string \<times> vm_d list) list"

type_synonym azure_event = "(azure_result, string) event"

definition get_private_address :: "azure_env \<Rightarrow> string \<Rightarrow> string \<Rightarrow> string \<Rightarrow> string list" where
  "get_private_address env subscription_id azure_resource_group azure_interface_name =
     network_interfaces_get env subscription_id azure_resource_group azure_interface_name"

text \<open>
  The loop of \<^verbatim>\<open>get_virtual_machine_details\<close>: the id of an interface is split at the
  slashes, its last part is the interface name and part 4 the resource group
  (\<^verbatim>\<open>IndexError\<close> when the id has fewer than five parts).
\<close>

fun add_interfaces :: "azure_env \<Rightarrow> string \<Rightarrow> string list \<Rightarrow> vm_d \<Rightarrow> error + vm_d" where
  "add_interfaces env subscription_id [] d = Inr d"
| "add_interfaces env subscription_id (interface_id # rest) d =
     (let interface = split_on CHR ''/'' interface_id
      in if length interface \<le> 4 then Inl IndexError
         else
           (let if_name = last interface; r_group = interface ! 4
            in add_interfaces env subscription_id rest
                 (d\<lparr>az_private_address :=
                      az_private_address d @ get_private_address env subscription_id r_group if_name,
                    az_interface_ids := az_interface_ids d @ [(if_name, r_group)]\<rparr>)))"

definition get_virtual_machine_details ::
  "azure_env \<Rightarrow> string \<Rightarrow> virtual_machine \<Rightarrow> error + vm_d" where
  "get_virtual_machine_details env subscription_id vm =
     add_interfaces env subscription_id (vm_network_interfaces vm)
       \<lparr>az_name = vm_name vm,
        az_vm_id = vm_vm_id vm,
        az_tags = (case vm_tags vm of None \<Rightarrow> [] | Some ts \<Rightarrow> ts),
        az_interface_ids = [],
        az_private_address = []\<rparr>"

fun collect_vms :: "azure_env \<Rightarrow> string \<Rightarrow> virtual_machine list \<Rightarrow> vm_d list \<Rightarrow> error + vm_d list" where
  "collect_vms env subscription_id [] virtual_machines = Inr virtual_machines"
| "collect_vms env subscription_id (vm # vms) virtual_machines =
     (case get_virtual_machine_details env subscription_id vm of
        Inl e \<Rightarrow> Inl e
      | Inr d \<Rightarrow> collect_vms env subscription_id vms (virtual_machines @ [d]))"

fun collect_subscriptions :: "azure_env \<Rightarrow> string list \<Rightarrow> azure_result \<Rightarrow> error + azure_result" where
  "collect_subscriptions env [] result = Inr result"
| "collect_subscriptions env (subscription_id # rest) result =
     (case collect_vms env subscription_id (virtual_machines_list_all env subscription_id) [] of
        Inl e \<Rightarrow> Inl e
      | Inr virtual_machines \<Rightarrow>
          collect_subscriptions env rest (dict_set subscription_id virtual_machines result))"

text \<open>
  The aggregation loop of the script. A machine without tags is skipped: the
  \<^verbatim>\<open>if tags:\<close> has no \<^verbatim>\<open>else\<close>.
  \<^verbatim>\<open>
  for tag, _value in tags.items():
      name = f"{tag}_{_value}" if _value else f"{tag}"
      iplists.setdefault(name, []).extend(value.get('private_address'))
  \<close>
\<close>

definition azure_group_name :: "string \<Rightarrow> string \<Rightarrow> string" where
  "azure_group_name tag v = (if v \<noteq> [] then tag @ ''_'' @ v else tag)"

fun azure_add_tags :: "(string \<times> string) list \<Rightarrow> 'a list \<Rightarrow> 'a aggregate \<Rightarrow> 'a aggregate" where
  "azure_add_tags [] addrs iplists = iplists"
| "azure_add_tags ((tag, v) # tags) addrs iplists =
     azure_add_tags tags addrs (setdefault_extend (azure_group_name tag v) addrs iplists)"

definition azure_add_vm :: "vm_d \<Rightarrow> string aggregate \<Rightarrow> string aggregate" where
  "azure_add_vm d iplists =
     (if az_tags d \<noteq> [] then azure_add_tags (az_tags d) (az_private_address d) iplists
      else iplists)"

fun azure_add_vms :: "vm_d list \<Rightarrow> string aggregate \<Rightarrow> string aggregate" where
  "azure_add_vms [] iplists = iplists"
| "azure_add_vms (d # ds) iplists = azure_add_vms ds (azure_add_vm d iplists)"

fun azure_add_result :: "azure_result \<Rightarrow> string aggregate \<Rightarrow> string aggregate" where
  "azure_add_result [] iplists = iplists"
| "azure_add_result ((subscription, vms) # rest) iplists =
     azure_add_result rest (azure_add_vms vms iplists)"

definition azure_subscriptions :: "azure_env \<Rightarrow> azure_config \<Rightarrow> string list" where
  "azure_subscriptions env config =
     (let given = (case az_subscription config of
                     None \<Rightarrow> []
                   | Some sub \<Rightarrow> if sub \<noteq> [] then [sub] else [])
      in if given = [] then subscriptions_list env else given)"

definition azure_main :: "azure_env \<Rightarrow> azure_config \<Rightarrow> azure_event list \<times> outcome" where
  "azure_main env config =
     (let subscriptions = azure_subscriptions env config
      in if subscriptions = [] then ([], Exit 1)
         else
           (case collect_subscriptions env subscriptions [] of
              Inl e \<Rightarrow> ([], Raised e)
            | Inr result \<Rightarrow>
                if az_report_only config then ([PPrint result], Exit 0)
                else
                  (case session_login (az_smc env) of
                     Some e \<Rightarrow> ([SessionLogin], Raised e)
                   | None \<Rightarrow>
                       (case publish (az_smc env) (azure_add_result result []) of
                          (evs, out) \<Rightarrow>
                            (SessionLogin
                               # map (\<lambda>(subscription, vms).
                                        PrintLine (''Operating on subscription: '' @ subscription))
                                   result
                               @ evs, out)))))"

section \<open>gcp/main.py\<close>

text \<open>
  An instance as the compute client gives it: its labels and, for each network
  interface, the address \<^verbatim>\<open>network_i_p\<close>.
\<close>

record gcp_instance =
  labels :: "(string \<times> string) list"
  network_interfaces :: "string list"

text \<open>
  The dictionary \<^verbatim>\<open>hostdata\<close> of \<^verbatim>\<open>list_all_instances\<close>. It is created with the keys
  \<^verbatim>\<open>private_addresses\<close> and \<^verbatim>\<open>labels\<close>; the key \<^verbatim>\<open>private_address\<close> is set by
  \<^verbatim>\<open>setdefault\<close> in the loop over the interfaces, so it is missing for an instance
  without interfaces.
\<close>

record hostdata =
  hd_private_addresses :: "string list"
  hd_labels :: "(string \<times> string) list"
  hd_private_address :: "string list option"

datatype gcp_inventory =
    ListPager "gcp_instance list"
  | ZoneDict "(string \<times> hostdata list) list"

record gcp_config =
  gcp_debug :: bool
  gcp_project_id :: string
  gcp_zone :: "string option"
  gcp_page_size :: int
  gcp_report_only :: bool

text \<open>
  The compute client: \<^verbatim>\<open>InstancesClient().list(project=, zone=)\<close>, an iterable of
  instances, and \<^verbatim>\<open>InstancesClient().aggregated_list(request)\<close> for a project and a
  \<^verbatim>\<open>max_results\<close>, the pairs of a zone and the instances of its response.
\<close>

record gcp_env =
  instances_list :: "string \<Rightarrow> string \<Rightarrow> gcp_instance list"
  aggregated_list :: "string \<Rightarrow> int \<Rightarrow> (string \<times> gcp_instance list) list"
  gcp_smc :: "string smc"

type_synonym gcp_event = "(gcp_inventory, string) event"

definition list_instances :: "gcp_env \<Rightarrow> string \<Rightarrow> string \<Rightarrow> gcp_inventory" where
  "list_instances env project_id zone = ListPager (instances_list env project_id zone)"

definition make_hostdata :: "gcp_instance \<Rightarrow> hostdata" where
  "make_hostdata inst =
     \<lparr>hd_private_addresses = [],
      hd_labels = labels inst,
      hd_private_address =
        (if network_interfaces inst = [] then None else Some (network_interfaces inst))\<rparr>"

fun add_zones ::
  "(string \<times> gcp_instance list) list \<Rightarrow> (string \<times> hostdata list) list \<Rightarrow> (string \<times> hostdata list) list" where
  "add_zones [] all_instances = all_instances"
| "add_zones ((zone, instances) # rest) all_instances =
     add_zones rest
       (if instances \<noteq> [] then setdefault_extend zone (map make_hostdata instances) all_instances
        else all_instances)"

definition list_all_instances :: "gcp_env \<Rightarrow> string \<Rightarrow> int \<Rightarrow> gcp_inventory" where
  "list_all_instances env project_id page_size =
     ZoneDict (add_zones (aggregated_list env project_id page_size) [])"

text \<open>
  The aggregation loop. \<^verbatim>\<open>host.get('private_address')\<close> is \<^verbatim>\<open>None\<close> when the key is
  missing, and \<^verbatim>\<open>extend(None)\<close> raises \<^verbatim>\<open>TypeError\<close>.
  \<^verbatim>\<open>
  for key, value in host.get('labels', {}).items():
      name = f"{key}_{value}" if value else  key
      iplists.setdefault(name, []).extend(host.get('private_address'))
  \<close>
\<close>

definition gcp_group_name :: "string \<Rightarrow> string \<Rightarrow> string" where
  "gcp_group_name key v = (if v \<noteq> [] then key @ ''_'' @ v else key)"

fun gcp_add_labels ::
  "(string \<times> string) list \<Rightarrow> 'a list option \<Rightarrow> 'a aggregate \<Rightarrow> error + 'a aggregate" where
  "gcp_add_labels [] private_address iplists = Inr iplists"
| "gcp_add_labels ((key, v) # rest) private_address iplists =
     (case private_address of
        None \<Rightarrow> Inl TypeError
      | Some addrs \<Rightarrow>
          gcp_add_labels rest private_address (setdefault_extend (gcp_group_name key v) addrs iplists))"

fun gcp_add_hosts :: "hostdata list \<Rightarrow> string aggregate \<Rightarrow> error + string aggregate" where
  "gcp_add_hosts [] iplists = Inr iplists"
| "gcp_add_hosts (host # hosts) iplists =
     (case gcp_add_labels (hd_labels host) (hd_private_address host) iplists of
        Inl e \<Rightarrow> Inl e
      | Inr iplists' \<Rightarrow> gcp_add_hosts hosts iplists')"

fun gcp_add_zones :: "(string \<times> hostdata list) list \<Rightarrow> string aggregate \<Rightarrow> error + string aggregate" where
  "gcp_add_zones [] iplists = Inr iplists"
| "gcp_add_zones ((zone, hosts) # rest) iplists =
     (case gcp_add_hosts hosts iplists of
        Inl e \<Rightarrow> Inl e
      | Inr iplists' \<Rightarrow> gcp_add_zones rest iplists')"

text \<open>
  \<^verbatim>\<open>for zone, instance in instances.items():\<close> on what either listing returned. The pager
  of \<^verbatim>\<open>list_instances\<close> is an iterable of instances, not a dictionary: the call
  \<^verbatim>\<open>instances.items()\<close> does not return on it.
\<close>

definition gcp_aggregate :: "gcp_inventory \<Rightarrow> error + string aggregate" where
  "gcp_aggregate instances =
     (case instances of
        ListPager pager \<Rightarrow> Inl NotAMapping
      | ZoneDict zones \<Rightarrow> gcp_add_zones zones [])"

definition gcp_instances :: "gcp_env \<Rightarrow> gcp_config \<Rightarrow> gcp_inventory" where
  "gcp_instances env config =
     (if truthy (gcp_zone config)
      then list_instances env (gcp_project_id config)
             (case gcp_zone config of Some z \<Rightarrow> z | None \<Rightarrow> [])
      else list_all_instances env (gcp_project_id config) 100)"

definition gcp_main :: "gcp_env \<Rightarrow> gcp_config \<Rightarrow> gcp_event list \<times> outcome" where
  "gcp_main env config =
     (let instances = gcp_instances env config
      in if gcp_report_only config then
           (case gcp_aggregate instances of
              Inl e \<Rightarrow> ([PPrint instances], Raised e)
            | Inr iplists \<Rightarrow> ([PPrint instances, PPrintIplists iplists], Exit 0))
         else
           (case session_login (gcp_smc env) of
              Some e \<Rightarrow> ([SessionLogin], Raised e)
            | None \<Rightarrow>
                (case gcp_aggregate instances of
                   Inl e \<Rightarrow> ([SessionLogin], Raised e)
                 | Inr iplists \<Rightarrow>
                     (case publish (gcp_smc env) iplists of
                        (evs, out) \<Rightarrow> (SessionLogin # evs, out)))))"

section \<open>Sample inventories and environments\<close>

text \<open>
  Concrete inputs on which the theorems below are evaluated: an SMC that accepts every
  call, an SMC that refuses one list, an EC2 client that serves an inventory in pages (one
  instance per reservation, \<^verbatim>\<open>MaxItems\<close> reservations per request, the token being as
  long as the number of reservations served so far), and small inventories for the three
  providers.
\<close>

definition ok_smc :: "'a smc" where
  "ok_smc =
     \<lparr>session_login = None,
      update_or_create = (\<lambda>name iplist append_lists. Inr name)\<rparr>"

definition failing_smc :: "string \<Rightarrow> 'a smc" where
  "failing_smc bad =
     \<lparr>session_login = None,
      update_or_create =
        (\<lambda>name iplist append_lists. if name = bad then Inl SMCError else Inr name)\<rparr>"

definition paged_client :: "raw_instance list \<Rightarrow> ec2_client" where
  "paged_client inventory =
     \<lparr>paginate_describe_vpcs = (\<lambda>filters cfg. Inr \<lparr>Vpcs = Some [], vpcs_NextToken = None\<rparr>),
      paginate_describe_instances =
        (\<lambda>filters cfg.
           let start = (case StartingToken cfg of None \<Rightarrow> 0 | Some t \<Rightarrow> length t);
               served = start + nat (MaxItems cfg)
           in Inr \<lparr>Reservations =
                     Some (map (\<lambda>i. \<lparr>Instances = Some [i]\<rparr>)
                             (take (nat (MaxItems cfg)) (drop start inventory))),
                   NextToken =
                     (if served < length inventory then Some (replicate served CHR ''x'')
                      else None)\<rparr>)\<rparr>"

definition raw_vm1 :: raw_instance where
  "raw_vm1 =
     \<lparr>Tags = Some [\<lparr>Key = Some ''Name'', Value = Some ''vm1''\<rparr>,
                   \<lparr>Key = Some ''env'', Value = Some ''prod''\<rparr>,
                   \<lparr>Key = Some ''team'', Value = Some ''infra''\<rparr>],
      Placement = Some \<lparr>AvailabilityZone = Some ''us-east-1a''\<rparr>,
      NetworkInterfaces = Some [\<lparr>PrivateIpAddresses = Some [Some ''10.0.0.1'']\<rparr>],
      VpcId = Some ''vpc-1''\<rparr>"

definition raw_vm2 :: raw_instance where
  "raw_vm2 =
     \<lparr>Tags = Some [\<lparr>Key = Some ''Name'', Value = Some ''vm2''\<rparr>],
      Placement = Some \<lparr>AvailabilityZone = Some ''us-east-1a''\<rparr>,
      NetworkInterfaces = Some [\<lparr>PrivateIpAddresses = Some [Some ''10.0.0.2'']\<rparr>],
      VpcId = Some ''vpc-1''\<rparr>"

definition raw_vm3 :: raw_instance where
  "raw_vm3 =
     \<lparr>Tags = Some [\<lparr>Key = Some ''Name'', Value = Some ''vm3''\<rparr>,
                   \<lparr>Key = Some ''env'', Value = Some ''prod''\<rparr>],
      Placement = Some \<lparr>AvailabilityZone = Some ''us-east-1b''\<rparr>,
      NetworkInterfaces = Some [\<lparr>PrivateIpAddresses = Some [Some ''10.0.0.3'']\<rparr>],
      VpcId = Some ''vpc-1''\<rparr>"

definition sample_aws_env :: "string option smc \<Rightarrow> aws_env" where
  "sample_aws_env smc =
     \<lparr>boto3_client = (\<lambda>region. paged_client [raw_vm1, raw_vm2, raw_vm3]), aws_smc = smc\<rparr>"

definition sample_aws_config :: "int \<Rightarrow> bool \<Rightarrow> aws_config" where
  "sample_aws_config page_size report =
     \<lparr>aws_debug = False, aws_region = None, aws_page_size = page_size,
      aws_ec2_states = None, aws_skip_vpc_discovery = True, aws_untagged_group = None,
      aws_tag_filters = None, aws_report_only = report\<rparr>"

text \<open>Two tags of one instance whose groups have the same name.\<close>

definition clashing_instance :: ec2_instance where
  "clashing_instance =
     \<lparr>aws_name = ''vm4'', aws_vpc_id = None,
      aws_tags = [\<lparr>Key = Some ''a'', Value = Some ''b_c''\<rparr>,
                  \<lparr>Key = Some ''a_b'', Value = Some ''c''\<rparr>],
      aws_private_address = [Some ''10.0.0.4''],
      aws_placement = ''us-east-1a''\<rparr>"

text \<open>The inventory of the comment at the end of \<^verbatim>\<open>azure/main.py\<close>.\<close>

definition azure_machine :: virtual_machine where
  "azure_machine =
     \<lparr>vm_name = ''machine'', vm_vm_id = ''780d7c49'', vm_tags = None,
      vm_network_interfaces =
        [''/subscriptions/sub-1/resourceGroups/Hosts_Resources/providers/Microsoft.Network/networkInterfaces/machine37_z1'']\<rparr>"

definition azure_windows :: virtual_machine where
  "azure_windows =
     \<lparr>vm_name = ''windows'', vm_vm_id = ''686b60a0'',
      vm_tags = Some [(''some_host_type'', ''''),
                      (''some_other_tag_with_value'', ''value_for_named_tag'')],
      vm_network_interfaces =
        [''/subscriptions/sub-1/resourceGroups/Hosts_Resources/providers/Microsoft.Network/networkInterfaces/windows152_z1'']\<rparr>"

definition sample_azure_env :: "string smc \<Rightarrow> azure_env" where
  "sample_azure_env smc =
     \<lparr>subscriptions_list = [''sub-1''],
      virtual_machines_list_all = (\<lambda>subscription_id. [azure_machine, azure_windows]),
      network_interfaces_get =
        (\<lambda>subscription_id resource_group interface_name.
           if interface_name = ''machine37_z1'' then [''10.0.0.4''] else [''10.1.0.4'']),
      az_smc = smc\<rparr>"

definition sample_azure_config :: "bool \<Rightarrow> azure_config" where
  "sample_azure_config report =
     \<lparr>az_debug = False, az_subscription = None, az_resource_group = None,
      az_report_only = report\<rparr>"

definition sample_vm_d :: "(string \<times> string) list \<Rightarrow> string list \<Rightarrow> vm_d" where
  "sample_vm_d tags addrs =
     \<lparr>az_name = ''vm'', az_vm_id = ''0'', az_tags = tags, az_interface_ids = [],
      az_private_address = addrs\<rparr>"

text \<open>A GCP project with one zone; the second instance has labels and no interface.\<close>

definition gcp_web :: gcp_instance where
  "gcp_web = \<lparr>labels = [(''env'', ''prod''), (''canary'', '''')], network_interfaces = [''10.2.0.2'']\<rparr>"

definition gcp_plain :: gcp_instance where
  "gcp_plain = \<lparr>labels = [], network_interfaces = [''10.2.0.3'']\<rparr>"

definition gcp_detached :: gcp_instance where
  "gcp_detached = \<lparr>labels = [(''env'', ''prod'')], network_interfaces = []\<rparr>"

definition sample_gcp_env :: "gcp_instance list \<Rightarrow> string smc \<Rightarrow> gcp_env" where
  "sample_gcp_env instances smc =
     \<lparr>instances_list = (\<lambda>project_id zone. instances),
      aggregated_list =
        (\<lambda>project_id max_results. [(''zones/us-west3-a'', []), (''zones/us-west3-b'', instances)]),
      gcp_smc = smc\<rparr>"

definition sample_gcp_config :: "string option \<Rightarrow> bool \<Rightarrow> gcp_config" where
  "sample_gcp_config zone report =
     \<lparr>gcp_debug = False, gcp_project_id = ''fpngf'', gcp_zone = zone, gcp_page_size = 100,
      gcp_report_only = report\<rparr>"

section \<open>The dictionary operation\<close>

lemma map_of_setdefault_extend:
  "map_of (setdefault_extend name addrs iplists) =
     (map_of iplists)(name \<mapsto> addresses_of iplists name @ addrs)"
  by (induction iplists) (auto simp: addresses_of_def fun_eq_iff)

lemma addresses_of_setdefault_extend:
  "addresses_of (setdefault_extend name addrs iplists) k =
     (if k = name then addresses_of iplists name @ addrs else addresses_of iplists k)"
  by (simp add: addresses_of_def map_of_setdefault_extend)

lemma keys_setdefault_extend:
  "map fst (setdefault_extend name addrs iplists) =
     (if name \<in> set (map fst iplists) then map fst iplists else map fst iplists @ [name])"
  by (induction iplists) (force+)

lemma key_set_setdefault_extend:
  "fst ` set (setdefault_extend name addrs iplists) = insert name (fst ` set iplists)"
proof -
  have "set (map fst (setdefault_extend name addrs iplists)) = insert name (set (map fst iplists))"
    unfolding keys_setdefault_extend by auto
  then show ?thesis by simp
qed


lemma setdefault_extend_fresh:
  "name \<notin> fst ` set iplists \<Longrightarrow> setdefault_extend name addrs iplists = iplists @ [(name, addrs)]"
  by (induction iplists) auto

text \<open>One \<^const>\<open>setdefault_extend\<close> for each name of a list, as the loops over tags do.\<close>

lemma addresses_of_fold:
  "addresses_of (fold (\<lambda>n. setdefault_extend n addrs) ns iplists) k =
     addresses_of iplists k @ concat (replicate (count_list ns k) addrs)"
  by (induction ns arbitrary: iplists) (auto simp: addresses_of_setdefault_extend)

lemma key_set_fold:
  "fst ` set (fold (\<lambda>n. setdefault_extend n addrs) ns iplists) = fst ` set iplists \<union> set ns"
  by (induction ns arbitrary: iplists) (auto simp: key_set_setdefault_extend)


lemma map_of_fold:
  "map_of (fold (\<lambda>n. setdefault_extend n addrs) ns iplists) k =
     (if k \<in> set ns
      then Some (addresses_of iplists k @ concat (replicate (count_list ns k) addrs))
      else map_of iplists k)"
proof (induction ns arbitrary: iplists)
  case Nil
  then show ?case by simp
next
  case (Cons n ns)
  then show ?case
    by (auto simp: map_of_setdefault_extend addresses_of_setdefault_extend addresses_of_def
        count_list_0_iff)
qed

lemma fold_fresh:
  "distinct ns \<Longrightarrow> set ns \<inter> fst ` set iplists = {} \<Longrightarrow>
     fold (\<lambda>n. setdefault_extend n addrs) ns iplists = iplists @ map (\<lambda>n. (n, addrs)) ns"
proof (induction ns arbitrary: iplists)
  case Nil
  then show ?case by simp
next
  case (Cons n ns)
  have "setdefault_extend n addrs iplists = iplists @ [(n, addrs)]"
    using Cons.prems(2) by (simp add: setdefault_extend_fresh)
  with Cons show ?case by auto
qed

lemma aws_add_tags_fold:
  "aws_add_tags tags addrs iplists =
     fold (\<lambda>n. setdefault_extend n addrs) (map aws_group_name tags) iplists"
  by (induction tags arbitrary: iplists) auto

lemma azure_add_tags_fold:
  "azure_add_tags tags addrs iplists =
     fold (\<lambda>n. setdefault_extend n addrs) (map (\<lambda>(tag, v). azure_group_name tag v) tags) iplists"
  by (induction tags arbitrary: iplists) auto

lemma gcp_add_labels_Some:
  "gcp_add_labels ls (Some addrs) iplists =
     Inr (fold (\<lambda>n. setdefault_extend n addrs) (map (\<lambda>(key, v). gcp_group_name key v) ls) iplists)"
  by (induction ls arbitrary: iplists) auto


section \<open>Aggregation across pages\<close>

lemma aws_add_batch_append:
  "aws_add_batch config (xs @ ys) iplists =
     aws_add_batch config ys (aws_add_batch config xs iplists)"
  by (induction xs arbitrary: iplists) auto

lemma aws_add_batches_concat:
  "aws_add_batches config pages iplists = aws_add_batch config (concat pages) iplists"
  by (induction pages arbitrary: iplists) (auto simp: aws_add_batch_append)

text \<open>
  C6. The dictionary built from a listing depends on the instances and their order only,
  not on how the listing was cut into pages: two page sequences with the same instances
  give the same \<^verbatim>\<open>iplists\<close>, from any starting dictionary. In particular three pages
  of one instance give what one page of the three instances gives.
\<close>

theorem C6_pagination:
  "(concat pages = concat pages' \<longrightarrow>
      aws_add_batches config pages iplists = aws_add_batches config pages' iplists) \<and>
   aws_add_batches config [[a], [b], [c]] iplists = aws_add_batches config [[a, b, c]] iplists"
  by (simp add: aws_add_batches_concat)

lemma sample_pages_1:
  "describe_instances_all 5 (paged_client [raw_vm1, raw_vm2, raw_vm3]) [] 1 =
     ([[normalize_instance raw_vm1], [normalize_instance raw_vm2], [normalize_instance raw_vm3]],
      Exhausted)"
  by code_simp

lemma sample_pages_100:
  "describe_instances_all 5 (paged_client [raw_vm1, raw_vm2, raw_vm3]) [] 100 =
     ([[normalize_instance raw_vm1, normalize_instance raw_vm2, normalize_instance raw_vm3]],
      Exhausted)"
  by code_simp

theorem C6_pagination_witness:
  "fst (describe_instances_all 5 (paged_client [raw_vm1, raw_vm2, raw_vm3]) [] 1) =
     [[normalize_instance raw_vm1], [normalize_instance raw_vm2], [normalize_instance raw_vm3]] \<and>
   fst (describe_instances_all 5 (paged_client [raw_vm1, raw_vm2, raw_vm3]) [] 100) =
     [[normalize_instance raw_vm1, normalize_instance raw_vm2, normalize_instance raw_vm3]] \<and>
   aws_add_batches (sample_aws_config 1 True)
     (fst (describe_instances_all 5 (paged_client [raw_vm1, raw_vm2, raw_vm3]) [] 1)) [] =
   aws_add_batches (sample_aws_config 1 True)
     (fst (describe_instances_all 5 (paged_client [raw_vm1, raw_vm2, raw_vm3]) [] 100)) [] \<and>
   aws_add_batches (sample_aws_config 1 True)
     (fst (describe_instances_all 5 (paged_client [raw_vm1, raw_vm2, raw_vm3]) [] 1)) [] =
     [(''env_prod'', [Some ''10.0.0.1'', Some ''10.0.0.3'']),
      (''team_infra'', [Some ''10.0.0.1'']),
      (''untagged-aws-us-east-1a'', [Some ''10.0.0.2''])]"
proof -
  let ?p1 = "[[normalize_instance raw_vm1], [normalize_instance raw_vm2], [normalize_instance raw_vm3]]"
  let ?p100 = "[[normalize_instance raw_vm1, normalize_instance raw_vm2, normalize_instance raw_vm3]]"
  have same: "concat ?p1 = concat ?p100" by simp
  have eq: "aws_add_batches (sample_aws_config 1 True) ?p1 [] =
            aws_add_batches (sample_aws_config 1 True) ?p100 []"
    using C6_pagination [of ?p1 ?p100 "sample_aws_config 1 True" "[]"] same by blast
  have val: "aws_add_batches (sample_aws_config 1 True) ?p1 [] =
     [(''env_prod'', [Some ''10.0.0.1'', Some ''10.0.0.3'']),
      (''team_infra'', [Some ''10.0.0.1'']),
      (''untagged-aws-us-east-1a'', [Some ''10.0.0.2''])]"
    by code_simp
  show ?thesis
    unfolding sample_pages_1 sample_pages_100 fst_conv using eq val by simp
qed

section \<open>Instances without tags\<close>

text \<open>
  C1 (as amended). In the AWS script an instance without tags adds its addresses to the
  fallback group and to no other: the group named by \<^verbatim>\<open>--untagged_group\<close> when that
  argument is given and not empty, the group \<^verbatim>\<open>untagged-aws-<placement>\<close> otherwise.
  The Azure and GCP scripts have no fallback group: an instance without tags or labels
  leaves the dictionary as it was.
\<close>

theorem C1_untagged_fallback:
  "(aws_tags inst = [] \<longrightarrow>
      aws_add_instance config inst iplists =
        setdefault_extend (aws_untagged_name config inst) (aws_private_address inst) iplists \<and>
      map_of (aws_add_instance config inst iplists) =
        (map_of iplists)(aws_untagged_name config inst \<mapsto>
           addresses_of iplists (aws_untagged_name config inst) @ aws_private_address inst)) \<and>
   aws_untagged_name config inst =
     (case aws_untagged_group config of
        None \<Rightarrow> ''untagged-aws-'' @ aws_placement inst
      | Some g \<Rightarrow> if g = [] then ''untagged-aws-'' @ aws_placement inst else g) \<and>
   (az_tags d = [] \<longrightarrow> azure_add_vm d azlists = azlists) \<and>
   (hd_labels host = [] \<longrightarrow> gcp_add_hosts [host] gcplists = Inr gcplists)"
proof -
  have "aws_untagged_name config inst =
     (case aws_untagged_group config of
        None \<Rightarrow> ''untagged-aws-'' @ aws_placement inst
      | Some g \<Rightarrow> if g = [] then ''untagged-aws-'' @ aws_placement inst else g)"
    by (simp add: aws_untagged_name_def truthy_def split: option.splits)
  moreover have "aws_tags inst = [] \<longrightarrow>
      aws_add_instance config inst iplists =
        setdefault_extend (aws_untagged_name config inst) (aws_private_address inst) iplists"
    by (simp add: aws_add_instance_def)
  moreover have "az_tags d = [] \<longrightarrow> azure_add_vm d azlists = azlists"
    by (simp add: azure_add_vm_def)
  moreover have "hd_labels host = [] \<longrightarrow> gcp_add_hosts [host] gcplists = Inr gcplists"
    by simp
  ultimately show ?thesis
    by (simp add: map_of_setdefault_extend)
qed

theorem C1_untagged_fallback_witness:
  "aws_tags (normalize_instance raw_vm2) = [] \<and>
   aws_add_instance (sample_aws_config 100 False) (normalize_instance raw_vm2)
       [(''env_prod'', [Some ''10.0.0.1''])] =
     [(''env_prod'', [Some ''10.0.0.1'']), (''untagged-aws-us-east-1a'', [Some ''10.0.0.2''])] \<and>
   az_tags (sample_vm_d [] [''10.0.0.4'']) = [] \<and>
   azure_add_vm (sample_vm_d [] [''10.0.0.4'']) [(''env_prod'', [''10.1.0.4''])] =
     [(''env_prod'', [''10.1.0.4''])] \<and>
   hd_labels (make_hostdata gcp_plain) = [] \<and>
   gcp_add_hosts [make_hostdata gcp_plain] [(''env_prod'', [''10.2.0.2''])] =
     Inr [(''env_prod'', [''10.2.0.2''])]"
proof -
  have t1: "aws_tags (normalize_instance raw_vm2) = []" by code_simp
  have t2: "az_tags (sample_vm_d [] [''10.0.0.4'']) = []" by code_simp
  have t3: "hd_labels (make_hostdata gcp_plain) = []" by code_simp
  note c = C1_untagged_fallback [of "normalize_instance raw_vm2" "sample_aws_config 100 False"
      "[(''env_prod'', [Some ''10.0.0.1''])]" "sample_vm_d [] [''10.0.0.4'']"
      "[(''env_prod'', [''10.1.0.4''])]" "make_hostdata gcp_plain" "[(''env_prod'', [''10.2.0.2''])]"]
  have a: "aws_add_instance (sample_aws_config 100 False) (normalize_instance raw_vm2)
       [(''env_prod'', [Some ''10.0.0.1''])] =
     setdefault_extend (aws_untagged_name (sample_aws_config 100 False) (normalize_instance raw_vm2))
       (aws_private_address (normalize_instance raw_vm2)) [(''env_prod'', [Some ''10.0.0.1''])]"
    using c t1 by blast
  have v: "setdefault_extend (aws_untagged_name (sample_aws_config 100 False) (normalize_instance raw_vm2))
       (aws_private_address (normalize_instance raw_vm2)) [(''env_prod'', [Some ''10.0.0.1''])] =
     [(''env_prod'', [Some ''10.0.0.1'']), (''untagged-aws-us-east-1a'', [Some ''10.0.0.2''])]"
    by code_simp
  have b: "azure_add_vm (sample_vm_d [] [''10.0.0.4'']) [(''env_prod'', [''10.1.0.4''])] =
     [(''env_prod'', [''10.1.0.4''])]"
    using c t2 by blast
  have g: "gcp_add_hosts [make_hostdata gcp_plain] [(''env_prod'', [''10.2.0.2''])] =
     Inr [(''env_prod'', [''10.2.0.2''])]"
    using c t3 by blast
  show ?thesis using t1 t2 t3 a v b g by simp
qed

text \<open>
  As the specification states it, the property fails on the machine without tags of the Azure inventory:
  its address \<^verbatim>\<open>10.0.0.4\<close> is in no group of the dictionary, and no fallback group is
  there. The same holds for the GCP instance without labels.
\<close>

theorem C1_counterexample:
  "az_tags (sample_vm_d [] [''10.0.0.4'']) = [] \<and>
   az_private_address (sample_vm_d [] [''10.0.0.4'']) = [''10.0.0.4''] \<and>
   azure_add_result
     [(''sub-1'', [sample_vm_d [] [''10.0.0.4''],
                   sample_vm_d [(''env'', ''prod'')] [''10.1.0.4'']])] [] =
     [(''env_prod'', [''10.1.0.4''])] \<and>
   gcp_aggregate (ZoneDict [(''zones/us-west3-b'', [make_hostdata gcp_plain, make_hostdata gcp_web])]) =
     Inr [(''env_prod'', [''10.2.0.2'']), (''canary'', [''10.2.0.2''])]"
  by code_simp

section \<open>Instances with several tags\<close>

text \<open>
  C2 (as amended). For an instance with tags (N of them, N at least 1), in the AWS and the
  Azure script: every group takes the full address list of the instance once for each
  tag whose group has that name, and the groups named by no tag of the instance are
  unchanged. When the N group names are pairwise different, exactly N groups take the
  list, each once; added to an empty dictionary the instance gives N entries, one for
  each tag in order, each holding the full list.
\<close>

theorem C2_fan_out:
  "(aws_tags inst \<noteq> [] \<longrightarrow>
      addresses_of (aws_add_instance config inst iplists) k =
        addresses_of iplists k @
        concat (replicate (count_list (map aws_group_name (aws_tags inst)) k)
                  (aws_private_address inst)) \<and>
      (distinct (map aws_group_name (aws_tags inst)) \<longrightarrow>
         map_of (aws_add_instance config inst iplists) k =
           (if k \<in> aws_group_name ` set (aws_tags inst)
            then Some (addresses_of iplists k @ aws_private_address inst)
            else map_of iplists k) \<and>
         card (aws_group_name ` set (aws_tags inst)) = length (aws_tags inst) \<and>
         aws_add_instance config inst [] =
           map (\<lambda>tag. (aws_group_name tag, aws_private_address inst)) (aws_tags inst))) \<and>
   (az_tags d \<noteq> [] \<longrightarrow>
      addresses_of (azure_add_vm d azlists) k' =
        addresses_of azlists k' @
        concat (replicate (count_list (map (\<lambda>(tag, v). azure_group_name tag v) (az_tags d)) k')
                  (az_private_address d)) \<and>
      (distinct (map (\<lambda>(tag, v). azure_group_name tag v) (az_tags d)) \<longrightarrow>
         map_of (azure_add_vm d azlists) k' =
           (if k' \<in> (\<lambda>(tag, v). azure_group_name tag v) ` set (az_tags d)
            then Some (addresses_of azlists k' @ az_private_address d)
            else map_of azlists k') \<and>
         card ((\<lambda>(tag, v). azure_group_name tag v) ` set (az_tags d)) = length (az_tags d) \<and>
         azure_add_vm d [] =
           map (\<lambda>(tag, v). (azure_group_name tag v, az_private_address d)) (az_tags d)))"
proof -
  have count: "distinct ns \<Longrightarrow> x \<in> set ns \<Longrightarrow> count_list ns x = 1"
    for ns :: "string list" and x
    by (induction ns) auto
  have once: "distinct ns \<Longrightarrow> x \<in> set ns \<Longrightarrow> concat (replicate (count_list ns x) addrs) = addrs"
    for ns :: "string list" and x and addrs :: "'b list"
    by (simp add: count)
  have general: "distinct ns \<Longrightarrow>
      map_of (fold (\<lambda>n. setdefault_extend n addrs) ns m) x =
        (if x \<in> set ns then Some (addresses_of m x @ addrs) else map_of m x) \<and>
      card (set ns) = length ns \<and>
      fold (\<lambda>n. setdefault_extend n addrs) ns [] = map (\<lambda>n. (n, addrs)) ns"
    for ns :: "string list" and addrs :: "'b list" and m x
    using once [of ns x addrs] fold_fresh [of ns "[]" addrs]
    by (simp add: map_of_fold distinct_card)
  have aws: "aws_tags inst \<noteq> [] \<Longrightarrow>
      aws_add_instance config inst m =
        fold (\<lambda>n. setdefault_extend n (aws_private_address inst))
          (map aws_group_name (aws_tags inst)) m" for m
    by (simp add: aws_add_instance_def aws_add_tags_fold)
  have az: "az_tags d \<noteq> [] \<Longrightarrow>
      azure_add_vm d m =
        fold (\<lambda>n. setdefault_extend n (az_private_address d))
          (map (\<lambda>(tag, v). azure_group_name tag v) (az_tags d)) m" for m
    by (simp add: azure_add_vm_def azure_add_tags_fold)
  have azmap: "map (\<lambda>n. (n, az_private_address d)) (map (\<lambda>(tag, v). azure_group_name tag v) (az_tags d)) =
      map (\<lambda>(tag, v). (azure_group_name tag v, az_private_address d)) (az_tags d)"
    by (induction "az_tags d") (auto simp: case_prod_beta comp_def)
  show ?thesis
  proof (intro conjI impI)
    assume t: "aws_tags inst \<noteq> []"
    show "addresses_of (aws_add_instance config inst iplists) k =
        addresses_of iplists k @
        concat (replicate (count_list (map aws_group_name (aws_tags inst)) k)
                  (aws_private_address inst))"
      by (simp add: aws [OF t] addresses_of_fold)
    assume dn: "distinct (map aws_group_name (aws_tags inst))"
    note g = general [OF dn, of "aws_private_address inst"]
    show "map_of (aws_add_instance config inst iplists) k =
           (if k \<in> aws_group_name ` set (aws_tags inst)
            then Some (addresses_of iplists k @ aws_private_address inst)
            else map_of iplists k)"
      using g [of iplists k] by (simp add: aws [OF t])
    show "card (aws_group_name ` set (aws_tags inst)) = length (aws_tags inst)"
      using g [of iplists k] by simp
    show "aws_add_instance config inst [] =
           map (\<lambda>tag. (aws_group_name tag, aws_private_address inst)) (aws_tags inst)"
      using g [of iplists k] by (simp add: aws [OF t] comp_def)
  next
    assume t: "az_tags d \<noteq> []"
    show "addresses_of (azure_add_vm d azlists) k' =
        addresses_of azlists k' @
        concat (replicate (count_list (map (\<lambda>(tag, v). azure_group_name tag v) (az_tags d)) k')
                  (az_private_address d))"
      by (simp add: az [OF t] addresses_of_fold)
    assume dn: "distinct (map (\<lambda>(tag, v). azure_group_name tag v) (az_tags d))"
    note g = general [OF dn, of "az_private_address d"]
    show "map_of (azure_add_vm d azlists) k' =
           (if k' \<in> (\<lambda>(tag, v). azure_group_name tag v) ` set (az_tags d)
            then Some (addresses_of azlists k' @ az_private_address d)
            else map_of azlists k')"
      using g [of azlists k'] by (simp add: az [OF t])
    show "card ((\<lambda>(tag, v). azure_group_name tag v) ` set (az_tags d)) = length (az_tags d)"
      using g [of azlists k'] by simp
    show "azure_add_vm d [] =
           map (\<lambda>(tag, v). (azure_group_name tag v, az_private_address d)) (az_tags d)"
      using g [of azlists k'] azmap by (simp add: az [OF t])
  qed
qed

theorem C2_fan_out_witness:
  "aws_tags (normalize_instance raw_vm1) \<noteq> [] \<and>
   distinct (map aws_group_name (aws_tags (normalize_instance raw_vm1))) \<and>
   length (aws_tags (normalize_instance raw_vm1)) = 2 \<and>
   aws_add_instance (sample_aws_config 100 False) (normalize_instance raw_vm1) [] =
     [(''env_prod'', [Some ''10.0.0.1'']), (''team_infra'', [Some ''10.0.0.1''])] \<and>
   map_of (aws_add_instance (sample_aws_config 100 False) (normalize_instance raw_vm1)
             [(''env_prod'', [Some ''10.0.0.9''])]) ''env_prod'' =
     Some [Some ''10.0.0.9'', Some ''10.0.0.1''] \<and>
   azure_add_vm
       (sample_vm_d [(''some_host_type'', ''''), (''some_other_tag_with_value'', ''value_for_named_tag'')]
          [''10.1.0.4'']) [] =
     [(''some_host_type'', [''10.1.0.4'']),
      (''some_other_tag_with_value_value_for_named_tag'', [''10.1.0.4''])]"
proof -
  let ?i = "normalize_instance raw_vm1"
  let ?c = "sample_aws_config 100 False"
  let ?d = "sample_vm_d [(''some_host_type'', ''''), (''some_other_tag_with_value'', ''value_for_named_tag'')]
          [''10.1.0.4'']"
  have t1: "aws_tags ?i \<noteq> []" by code_simp
  have d1: "distinct (map aws_group_name (aws_tags ?i))" by code_simp
  have n1: "length (aws_tags ?i) = 2" by code_simp
  have t2: "az_tags ?d \<noteq> []" by code_simp
  have d2: "distinct (map (\<lambda>(tag, v). azure_group_name tag v) (az_tags ?d))" by code_simp
  note c = C2_fan_out [of ?i ?c "[(''env_prod'', [Some ''10.0.0.9''])]" "''env_prod''" ?d "[]" "''env''"]
  have a: "aws_add_instance ?c ?i [] = map (\<lambda>tag. (aws_group_name tag, aws_private_address ?i)) (aws_tags ?i)"
    using c t1 d1 by blast
  have av: "map (\<lambda>tag. (aws_group_name tag, aws_private_address ?i)) (aws_tags ?i) =
      [(''env_prod'', [Some ''10.0.0.1'']), (''team_infra'', [Some ''10.0.0.1''])]"
    by code_simp
  have m: "map_of (aws_add_instance ?c ?i [(''env_prod'', [Some ''10.0.0.9''])]) ''env_prod'' =
      (if ''env_prod'' \<in> aws_group_name ` set (aws_tags ?i)
       then Some (addresses_of [(''env_prod'', [Some ''10.0.0.9''])] ''env_prod'' @ aws_private_address ?i)
       else map_of [(''env_prod'', [Some ''10.0.0.9''])] ''env_prod'')"
    using c t1 d1 by blast
  have mv: "(if ''env_prod'' \<in> aws_group_name ` set (aws_tags ?i)
       then Some (addresses_of [(''env_prod'', [Some ''10.0.0.9''])] ''env_prod'' @ aws_private_address ?i)
       else map_of [(''env_prod'', [Some ''10.0.0.9''])] ''env_prod'') =
      Some [Some ''10.0.0.9'', Some ''10.0.0.1'']"
    by code_simp
  have z: "azure_add_vm ?d [] = map (\<lambda>(tag, v). (azure_group_name tag v, az_private_address ?d)) (az_tags ?d)"
    using c t2 d2 by blast
  have zv: "map (\<lambda>(tag, v). (azure_group_name tag v, az_private_address ?d)) (az_tags ?d) =
      [(''some_host_type'', [''10.1.0.4'']),
       (''some_other_tag_with_value_value_for_named_tag'', [''10.1.0.4''])]"
    by code_simp
  show ?thesis
    using t1 d1 n1 a av m mv z zv by simp
qed

text \<open>
  As the specification states it, the property fails on an instance with the two tags \<^verbatim>\<open>a = b_c\<close> and
  \<^verbatim>\<open>a_b = c\<close>: both groups are named \<^verbatim>\<open>a_b_c\<close>, so the dictionary gets one entry, not
  two, and the entry holds the address twice. The Azure script does the same.
\<close>

theorem C2_counterexample:
  "length (aws_tags clashing_instance) = 2 \<and>
   aws_private_address clashing_instance = [Some ''10.0.0.4''] \<and>
   aws_add_instance (sample_aws_config 100 False) clashing_instance [] =
     [(''a_b_c'', [Some ''10.0.0.4'', Some ''10.0.0.4''])] \<and>
   azure_add_vm (sample_vm_d [(''a'', ''b_c''), (''a_b'', ''c'')] [''10.0.0.4'']) [] =
     [(''a_b_c'', [''10.0.0.4'', ''10.0.0.4''])]"
  by code_simp

section \<open>Group names\<close>

lemma space_free_replace_space: "CHR '' '' \<notin> set (replace_space s)"
  by (auto simp: replace_space_def)

lemma replace_space_nth:
  "i < length s \<Longrightarrow> replace_space s ! i = (if s ! i = CHR '' '' then CHR ''_'' else s ! i)"
  by (simp add: replace_space_def)

text \<open>
  C3 (as amended). The groups that the aggregation of one instance creates or extends are
  the groups it had before and one group for each tag. In the Azure and the GCP script
  the group of a tag is named \<^verbatim>\<open><key>_<value>\<close> when the value is not empty and
  \<^verbatim>\<open><key>\<close> when it is. In the AWS script the group is always named
  \<^verbatim>\<open><key>_<value>\<close>, of the key and the value with their spaces replaced, a missing key
  or value being read as the empty string: an empty value gives \<^verbatim>\<open><key>_\<close>.
\<close>

theorem C3_group_names:
  "(aws_tags inst \<noteq> [] \<longrightarrow>
      fst ` set (aws_add_instance config inst iplists) =
        fst ` set iplists \<union>
        (\<lambda>tag. replace_space (case Key tag of None \<Rightarrow> [] | Some key \<Rightarrow> key) @ ''_'' @
                 replace_space (case Value tag of None \<Rightarrow> [] | Some v \<Rightarrow> v)) ` set (aws_tags inst)) \<and>
   fst ` set (azure_add_vm d azlists) =
     fst ` set azlists \<union> (\<lambda>(key, v). if v = [] then key else key @ ''_'' @ v) ` set (az_tags d) \<and>
   (hd_private_address host = Some addrs \<longrightarrow>
      (\<exists>gcplists'. gcp_add_hosts [host] gcplists = Inr gcplists' \<and>
         fst ` set gcplists' =
           fst ` set gcplists \<union>
           (\<lambda>(key, v). if v = [] then key else key @ ''_'' @ v) ` set (hd_labels host)))"
proof -
  have aws: "aws_group_name =
      (\<lambda>tag. replace_space (case Key tag of None \<Rightarrow> [] | Some key \<Rightarrow> key) @ ''_'' @
               replace_space (case Value tag of None \<Rightarrow> [] | Some v \<Rightarrow> v))"
    by (simp add: aws_group_name_def fun_eq_iff)
  have az: "(\<lambda>(tag, v). azure_group_name tag v) =
      (\<lambda>(key, v). if v = [] then key else key @ ''_'' @ v)"
    by (auto simp: azure_group_name_def fun_eq_iff)
  have gcp: "(\<lambda>(key, v). gcp_group_name key v) =
      (\<lambda>(key, v). if v = [] then key else key @ ''_'' @ v)"
    by (auto simp: gcp_group_name_def fun_eq_iff)
  have a: "aws_tags inst \<noteq> [] \<longrightarrow>
      fst ` set (aws_add_instance config inst iplists) =
        fst ` set iplists \<union> aws_group_name ` set (aws_tags inst)"
    by (simp add: aws_add_instance_def aws_add_tags_fold key_set_fold)
  have b: "fst ` set (azure_add_vm d azlists) =
     fst ` set azlists \<union> (\<lambda>(tag, v). azure_group_name tag v) ` set (az_tags d)"
    by (simp add: azure_add_vm_def azure_add_tags_fold key_set_fold)
  have c: "hd_private_address host = Some addrs \<longrightarrow>
      (\<exists>gcplists'. gcp_add_hosts [host] gcplists = Inr gcplists' \<and>
         fst ` set gcplists' =
           fst ` set gcplists \<union> (\<lambda>(key, v). gcp_group_name key v) ` set (hd_labels host))"
    by (simp add: gcp_add_labels_Some key_set_fold)
  show ?thesis
    using a b c unfolding aws az gcp by blast
qed

theorem C3_group_names_witness:
  "aws_tags (normalize_instance raw_vm1) \<noteq> [] \<and>
   fst ` set (aws_add_instance (sample_aws_config 100 False) (normalize_instance raw_vm1) []) =
     {''env_prod'', ''team_infra''} \<and>
   fst ` set (azure_add_vm
       (sample_vm_d [(''some_host_type'', ''''), (''some_other_tag_with_value'', ''value_for_named_tag'')]
          [''10.1.0.4'']) []) =
     {''some_host_type'', ''some_other_tag_with_value_value_for_named_tag''} \<and>
   hd_private_address (make_hostdata gcp_web) = Some [''10.2.0.2''] \<and>
   gcp_add_hosts [make_hostdata gcp_web] [] =
     Inr [(''env_prod'', [''10.2.0.2'']), (''canary'', [''10.2.0.2''])]"
proof -
  let ?i = "normalize_instance raw_vm1"
  let ?c = "sample_aws_config 100 False"
  let ?d = "sample_vm_d [(''some_host_type'', ''''), (''some_other_tag_with_value'', ''value_for_named_tag'')]
          [''10.1.0.4'']"
  let ?h = "make_hostdata gcp_web"
  have t1: "aws_tags ?i \<noteq> []" by code_simp
  have p: "hd_private_address ?h = Some [''10.2.0.2'']" by code_simp
  note c = C3_group_names [of ?i ?c "[]" ?d "[]" ?h "[''10.2.0.2'']" "[]"]
  have tags: "aws_tags ?i = [\<lparr>Key = Some ''env'', Value = Some ''prod''\<rparr>,
      \<lparr>Key = Some ''team'', Value = Some ''infra''\<rparr>]"
    by code_simp
  have dt: "az_tags ?d = [(''some_host_type'', ''''), (''some_other_tag_with_value'', ''value_for_named_tag'')]"
    by code_simp
  have a: "fst ` set (aws_add_instance ?c ?i []) = {''env_prod'', ''team_infra''}"
    using c t1 unfolding tags by (simp add: replace_space_def insert_commute)
  have b: "fst ` set (azure_add_vm ?d []) =
     {''some_host_type'', ''some_other_tag_with_value_value_for_named_tag''}"
    using c unfolding dt by (simp add: insert_commute)
  have g: "gcp_add_hosts [?h] [] = Inr [(''env_prod'', [''10.2.0.2'']), (''canary'', [''10.2.0.2''])]"
    by code_simp
  show ?thesis using t1 p a b g by simp
qed

text \<open>
  As the specification states it, the property fails in the AWS script on a tag with an empty or a missing
  value: the group is named \<^verbatim>\<open>role_\<close>, not \<^verbatim>\<open>role\<close>.
\<close>

theorem C3_counterexample:
  "aws_group_name \<lparr>Key = Some ''role'', Value = Some ''''\<rparr> = ''role_'' \<and>
   aws_group_name \<lparr>Key = Some ''role'', Value = None\<rparr> = ''role_'' \<and>
   aws_group_name \<lparr>Key = Some ''role'', Value = Some ''''\<rparr> \<noteq> ''role'' \<and>
   aws_add_instance (sample_aws_config 100 False)
       \<lparr>aws_name = ''vm5'', aws_vpc_id = None,
        aws_tags = [\<lparr>Key = Some ''role'', Value = Some ''''\<rparr>],
        aws_private_address = [Some ''10.0.0.5''], aws_placement = ''us-east-1a''\<rparr> [] =
     [(''role_'', [Some ''10.0.0.5''])]"
  by code_simp

text \<open>
  C8. In the AWS script the name of the group of a tag is built from the key and the value
  in which every space was replaced by an underscore (and nothing else changed), so it
  holds no space. In the Azure and the GCP script the key and the value go into the name
  as they are: a space of the key or of the value is in the name.
\<close>

theorem C8_space_replacement:
  "aws_group_name tag =
     replace_space (case Key tag of None \<Rightarrow> [] | Some key \<Rightarrow> key) @ ''_'' @
     replace_space (case Value tag of None \<Rightarrow> [] | Some v \<Rightarrow> v) \<and>
   length (replace_space s) = length s \<and>
   (i < length s \<longrightarrow> replace_space s ! i = (if s ! i = CHR '' '' then CHR ''_'' else s ! i)) \<and>
   CHR '' '' \<notin> set (aws_group_name tag) \<and>
   (aws_tags inst \<noteq> [] \<and> name \<in> fst ` set (aws_add_instance config inst []) \<longrightarrow>
      CHR '' '' \<notin> set name) \<and>
   azure_group_name key v = (if v = [] then key else key @ ''_'' @ v) \<and>
   gcp_group_name key v = (if v = [] then key else key @ ''_'' @ v) \<and>
   (CHR '' '' \<in> set key \<union> set v \<longrightarrow>
      CHR '' '' \<in> set (azure_group_name key v) \<and> CHR '' '' \<in> set (gcp_group_name key v))"
proof -
  have free: "CHR '' '' \<notin> set (aws_group_name t)" for t
    by (simp add: aws_group_name_def space_free_replace_space)
  have keys: "aws_tags inst \<noteq> [] \<Longrightarrow>
      fst ` set (aws_add_instance config inst []) = aws_group_name ` set (aws_tags inst)"
    by (simp add: aws_add_instance_def aws_add_tags_fold key_set_fold)
  have agg: "aws_tags inst \<noteq> [] \<and> name \<in> fst ` set (aws_add_instance config inst []) \<longrightarrow>
      CHR '' '' \<notin> set name"
  proof (intro impI, elim conjE)
    assume t: "aws_tags inst \<noteq> []" and n: "name \<in> fst ` set (aws_add_instance config inst [])"
    from n have "name \<in> aws_group_name ` set (aws_tags inst)"
      unfolding keys [OF t] .
    then obtain tg where "name = aws_group_name tg" by blast
    then show "CHR '' '' \<notin> set name" using free [of tg] by simp
  qed
  have names: "aws_group_name tag =
     replace_space (case Key tag of None \<Rightarrow> [] | Some key \<Rightarrow> key) @ ''_'' @
     replace_space (case Value tag of None \<Rightarrow> [] | Some v \<Rightarrow> v)"
    by (simp add: aws_group_name_def)
  have others: "azure_group_name key v = (if v = [] then key else key @ ''_'' @ v) \<and>
      gcp_group_name key v = (if v = [] then key else key @ ''_'' @ v)"
    by (simp add: azure_group_name_def gcp_group_name_def)
  have kept: "CHR '' '' \<in> set key \<union> set v \<longrightarrow>
      CHR '' '' \<in> set (azure_group_name key v) \<and> CHR '' '' \<in> set (gcp_group_name key v)"
    by (auto simp: azure_group_name_def gcp_group_name_def)
  have len: "length (replace_space s) = length s"
    by (simp add: replace_space_def)
  show ?thesis
    using free [of tag] agg names others kept len replace_space_nth [of i s] by blast
qed

theorem C8_space_replacement_witness:
  "aws_group_name \<lparr>Key = Some ''my key'', Value = Some ''my value''\<rparr> = ''my_key_my_value'' \<and>
   CHR '' '' \<notin> set (aws_group_name \<lparr>Key = Some ''my key'', Value = Some ''my value''\<rparr>) \<and>
   (2::nat) < length ''my key'' \<and>
   replace_space ''my key'' ! 2 = CHR ''_'' \<and>
   CHR '' '' \<in> set ''my key'' \<union> set ''my value'' \<and>
   azure_group_name ''my key'' ''my value'' = ''my key_my value'' \<and>
   gcp_group_name ''my key'' ''my value'' = ''my key_my value'' \<and>
   CHR '' '' \<in> set (azure_group_name ''my key'' ''my value'') \<and>
   CHR '' '' \<in> set (gcp_group_name ''my key'' ''my value'')"
proof -
  let ?t = "\<lparr>Key = Some ''my key'', Value = Some ''my value''\<rparr>"
  let ?i = "\<lparr>aws_name = ''vm6'', aws_vpc_id = None, aws_tags = [?t],
        aws_private_address = [Some ''10.0.0.6''], aws_placement = ''us-east-1a''\<rparr>"
  note c = C8_space_replacement [of ?t "''my key''" 2 ?i "''my_key_my_value''"
      "sample_aws_config 100 False" "''my key''" "''my value''"]
  have l: "(2::nat) < length ''my key''" by simp
  have sp: "CHR '' '' \<in> set ''my key'' \<union> set ''my value''" by simp
  have n: "aws_group_name ?t = ''my_key_my_value''"
    using c by (simp add: replace_space_def)
  have f: "CHR '' '' \<notin> set (aws_group_name ?t)" using c by blast
  have r: "replace_space ''my key'' ! 2 = CHR ''_''" using c l by simp
  have z: "azure_group_name ''my key'' ''my value'' = ''my key_my value'' \<and>
      gcp_group_name ''my key'' ''my value'' = ''my key_my value''"
    using c by simp
  have k: "CHR '' '' \<in> set (azure_group_name ''my key'' ''my value'') \<and>
      CHR '' '' \<in> set (gcp_group_name ''my key'' ''my value'')"
    using c sp by blast
  show ?thesis using l sp n f r z k by blast
qed

section \<open>The publish loop\<close>

lemma publish_calls_simps [simp]:
  "publish_calls [] = []"
  "publish_calls (UpdateOrCreate name addrs b # evs) = UpdateOrCreate name addrs b # publish_calls evs"
  "publish_calls (PrintLine l # evs) = publish_calls evs"
  "publish_calls (SessionLogin # evs) = publish_calls evs"
  "publish_calls (PPrint p # evs) = publish_calls evs"
  "publish_calls (PPrintIplists agg # evs) = publish_calls evs"
  "publish_calls (evs @ evs') = publish_calls evs @ publish_calls evs'"
  by (simp_all add: publish_calls_def)

lemma logins_simps [simp]:
  "logins [] = []"
  "logins (UpdateOrCreate name addrs b # evs) = logins evs"
  "logins (PrintLine l # evs) = logins evs"
  "logins (SessionLogin # evs) = SessionLogin # logins evs"
  "logins (PPrint p # evs) = logins evs"
  "logins (PPrintIplists agg # evs) = logins evs"
  "logins (evs @ evs') = logins evs @ logins evs'"
  by (simp_all add: logins_def)

lemma printed_iplists_append [simp]:
  "printed_iplists (evs @ evs') = printed_iplists evs @ printed_iplists evs'"
  by (induction evs rule: printed_iplists.induct) auto

lemma full_replace_calls_simps [simp]:
  "full_replace_calls [] = []"
  "full_replace_calls ((name, addrs) # iplists) =
     UpdateOrCreate name addrs False # full_replace_calls iplists"
  "full_replace_calls (iplists @ iplists') = full_replace_calls iplists @ full_replace_calls iplists'"
  by (simp_all add: full_replace_calls_def)

lemma publish_outcome:
  "snd (publish smc iplists) = Exit 0 \<or> (\<exists>e. snd (publish smc iplists) = Raised e)"
  by (induction iplists) (auto split: sum.splits prod.splits)

lemma publish_complete:
  "snd (publish smc iplists) = Exit 0 \<Longrightarrow>
     publish_calls (fst (publish smc iplists)) = full_replace_calls iplists"
  by (induction iplists) (auto split: sum.splits prod.splits)


lemma publish_no_login: "logins (fst (publish smc iplists)) = []"
  by (induction iplists) (auto split: sum.splits prod.splits)

lemma publish_no_print: "printed_iplists (fst (publish smc iplists)) = []"
  by (induction iplists) (auto split: sum.splits prod.splits)

lemma publish_calls_members:
  "UpdateOrCreate name addrs b \<in> set (fst (publish smc iplists)) \<Longrightarrow>
     \<not> b \<and> (name, addrs) \<in> set iplists"
  by (induction iplists) (auto split: sum.splits prod.splits)

text \<open>A failing call ends the loop: the entries before it were sent, the ones after it never are.\<close>

lemma publish_stops:
  "update_or_create smc name addrs False = Inl e \<Longrightarrow>
   list_all (\<lambda>(k, v). \<exists>h. update_or_create smc k v False = Inr h) before \<Longrightarrow>
     snd (publish smc (before @ (name, addrs) # rest)) = Raised e \<and>
     publish_calls (fst (publish smc (before @ (name, addrs) # rest))) =
       full_replace_calls (before @ [(name, addrs)])"
  by (induction before) (auto split: sum.splits prod.splits)

section \<open>The three scripts as a whole\<close>

lemma stop_outcome_Exit [simp]: "stop_outcome s = Exit 0 \<longleftrightarrow> s = Exhausted"
  by (cases s) (simp_all add: stop_outcome_def)

lemma report_events [simp]:
  "logins (map (\<lambda>x. PPrint (f x)) xs) = []"
  "publish_calls (map (\<lambda>x. PPrint (f x)) xs) = []"
  "printed_iplists (map (\<lambda>x. PPrint (f x)) xs) = []"
  by (induction xs) simp_all

lemma subscription_lines [simp]:
  "logins (map (\<lambda>(subscription, vms). PrintLine (f subscription)) result) = []"
  "publish_calls (map (\<lambda>(subscription, vms). PrintLine (f subscription)) result) = []"
  "printed_iplists (map (\<lambda>(subscription, vms). PrintLine (f subscription)) result) = []"
  by (induction result) auto

text \<open>A run that reports only: no login, no call to the SMC.\<close>

lemma aws_report_quiet:
  "aws_report_only config \<Longrightarrow>
     logins (fst (aws_main fuel env config)) = [] \<and>
     publish_calls (fst (aws_main fuel env config)) = []"
  by (simp add: aws_main_def Let_def split: prod.splits)

lemma aws_report_prints:
  "aws_report_only config \<Longrightarrow> snd (aws_main fuel env config) = Exit 0 \<Longrightarrow>
     printed_iplists (fst (aws_main fuel env config)) = [aws_iplists fuel env config]"
  by (auto simp: aws_main_def Let_def split: prod.splits if_splits)

lemma azure_report_quiet:
  "az_report_only config \<Longrightarrow>
     logins (fst (azure_main env config)) = [] \<and>
     publish_calls (fst (azure_main env config)) = [] \<and>
     printed_iplists (fst (azure_main env config)) = []"
  by (simp add: azure_main_def Let_def split: sum.splits)

lemma gcp_report_quiet:
  "gcp_report_only config \<Longrightarrow>
     logins (fst (gcp_main env config)) = [] \<and>
     publish_calls (fst (gcp_main env config)) = []"
  by (simp add: gcp_main_def Let_def split: sum.splits)

lemma gcp_report_prints:
  "gcp_report_only config \<Longrightarrow> snd (gcp_main env config) = Exit 0 \<Longrightarrow>
     \<exists>iplists. gcp_aggregate (gcp_instances env config) = Inr iplists \<and>
       printed_iplists (fst (gcp_main env config)) = [iplists]"
  by (auto simp: gcp_main_def Let_def split: sum.splits)

text \<open>
  A run that publishes either reaches the publish loop, and then its trace is the login,
  the lines of the aggregation and the trace of the loop on the dictionary, or it ends
  before the loop without a call to \<^verbatim>\<open>update_or_create\<close> and not with exit code 0.
\<close>

lemma aws_publish_cases:
  "\<not> aws_report_only config \<Longrightarrow>
     aws_main fuel env config =
       (SessionLogin # fst (publish (aws_smc env) (aws_iplists fuel env config)),
        snd (publish (aws_smc env) (aws_iplists fuel env config) :: aws_event list \<times> outcome)) \<or>
     publish_calls (fst (aws_main fuel env config)) = [] \<and>
     snd (aws_main fuel env config) \<noteq> Exit 0"
  by (auto simp: aws_main_def Let_def split: prod.splits option.splits)


lemma gcp_publish_cases:
  "\<not> gcp_report_only config \<Longrightarrow>
     (\<exists>iplists. gcp_aggregate (gcp_instances env config) = Inr iplists \<and>
        gcp_main env config =
          (SessionLogin # fst (publish (gcp_smc env) iplists),
           snd (publish (gcp_smc env) iplists :: gcp_event list \<times> outcome))) \<or>
     publish_calls (fst (gcp_main env config)) = [] \<and>
     snd (gcp_main env config) \<noteq> Exit 0"
  by (auto simp: gcp_main_def Let_def split: prod.splits option.splits sum.splits)

text \<open>The flag \<^verbatim>\<open>--report_only\<close> has no part in the aggregation.\<close>

lemma aws_add_batches_report_only:
  "aws_add_batches (config\<lparr>aws_report_only := b\<rparr>) batches iplists =
     aws_add_batches config batches iplists"
proof -
  have inst: "aws_add_instance (config\<lparr>aws_report_only := b\<rparr>) i m = aws_add_instance config i m"
    for i m
    by (simp add: aws_add_instance_def aws_untagged_name_def)
  have batch: "aws_add_batch (config\<lparr>aws_report_only := b\<rparr>) xs m = aws_add_batch config xs m"
    for xs m
    by (induction xs arbitrary: m) (simp_all add: inst)
  show ?thesis
    by (induction batches arbitrary: iplists) (simp_all add: batch)
qed

lemma aws_iplists_report_only:
  "aws_iplists fuel env (config\<lparr>aws_report_only := b\<rparr>) = aws_iplists fuel env config"
  by (simp add: aws_iplists_def aws_listing_def aws_client_def aws_states_def
      aws_add_batches_report_only)

lemma gcp_instances_report_only:
  "gcp_instances env (config\<lparr>gcp_report_only := b\<rparr>) = gcp_instances env config"
  by (simp add: gcp_instances_def)





section \<open>Report only\<close>

text \<open>
  C4 (as amended). In the three scripts a run with \<^verbatim>\<open>--report_only\<close> never logs in to the
  SMC and never calls \<^verbatim>\<open>update_or_create\<close>, however it ends. In the AWS and the GCP
  script a report run that ends with exit code 0 prints one dictionary, and that is the
  dictionary a publishing run on the same inventory sends to the SMC. The Azure script
  prints the inventory it collected and exits before the aggregation: it prints no
  dictionary of groups.
\<close>

theorem C4_report_only:
  "(aws_report_only config \<longrightarrow>
      logins (fst (aws_main fuel env config)) = [] \<and>
      publish_calls (fst (aws_main fuel env config)) = [] \<and>
      (snd (aws_main fuel env config) = Exit 0 \<longrightarrow>
         printed_iplists (fst (aws_main fuel env config)) = [aws_iplists fuel env config] \<and>
         (snd (aws_main fuel env (config\<lparr>aws_report_only := False\<rparr>)) = Exit 0 \<longrightarrow>
            publish_calls (fst (aws_main fuel env (config\<lparr>aws_report_only := False\<rparr>))) =
              full_replace_calls (aws_iplists fuel env config)))) \<and>
   (gcp_report_only gconfig \<longrightarrow>
      logins (fst (gcp_main genv gconfig)) = [] \<and>
      publish_calls (fst (gcp_main genv gconfig)) = [] \<and>
      (snd (gcp_main genv gconfig) = Exit 0 \<longrightarrow>
         (\<exists>iplists. gcp_aggregate (gcp_instances genv gconfig) = Inr iplists \<and>
            printed_iplists (fst (gcp_main genv gconfig)) = [iplists] \<and>
            (snd (gcp_main genv (gconfig\<lparr>gcp_report_only := False\<rparr>)) = Exit 0 \<longrightarrow>
               publish_calls (fst (gcp_main genv (gconfig\<lparr>gcp_report_only := False\<rparr>))) =
                 full_replace_calls iplists)))) \<and>
   (az_report_only zconfig \<longrightarrow>
      logins (fst (azure_main zenv zconfig)) = [] \<and>
      publish_calls (fst (azure_main zenv zconfig)) = [] \<and>
      printed_iplists (fst (azure_main zenv zconfig)) = [])"
proof (intro conjI impI)
  assume r: "aws_report_only config"
  show "logins (fst (aws_main fuel env config)) = []"
    and "publish_calls (fst (aws_main fuel env config)) = []"
    using aws_report_quiet [OF r] by simp_all
  assume ok: "snd (aws_main fuel env config) = Exit 0"
  show "printed_iplists (fst (aws_main fuel env config)) = [aws_iplists fuel env config]"
    using aws_report_prints [OF r ok] .
  let ?p = "config\<lparr>aws_report_only := False\<rparr>"
  assume pub: "snd (aws_main fuel env ?p) = Exit 0"
  have np: "\<not> aws_report_only ?p" by simp
  from aws_publish_cases [OF np, of fuel env] pub
  have run: "aws_main fuel env ?p =
       (SessionLogin # fst (publish (aws_smc env) (aws_iplists fuel env ?p)),
        snd (publish (aws_smc env) (aws_iplists fuel env ?p) :: aws_event list \<times> outcome))"
    by blast
  with pub have "snd (publish (aws_smc env) (aws_iplists fuel env ?p) :: aws_event list \<times> outcome) = Exit 0"
    by simp
  from publish_complete [OF this] run
  show "publish_calls (fst (aws_main fuel env ?p)) = full_replace_calls (aws_iplists fuel env config)"
    by (simp add: aws_iplists_report_only)
next
  assume r: "gcp_report_only gconfig"
  show "logins (fst (gcp_main genv gconfig)) = []"
    and "publish_calls (fst (gcp_main genv gconfig)) = []"
    using gcp_report_quiet [OF r] by simp_all
  assume ok: "snd (gcp_main genv gconfig) = Exit 0"
  from gcp_report_prints [OF r ok] obtain iplists where
    agg: "gcp_aggregate (gcp_instances genv gconfig) = Inr iplists" and
    pr: "printed_iplists (fst (gcp_main genv gconfig)) = [iplists]"
    by blast
  let ?p = "gconfig\<lparr>gcp_report_only := False\<rparr>"
  have "snd (gcp_main genv ?p) = Exit 0 \<longrightarrow>
      publish_calls (fst (gcp_main genv ?p)) = full_replace_calls iplists"
  proof
    assume pub: "snd (gcp_main genv ?p) = Exit 0"
    have np: "\<not> gcp_report_only ?p" by simp
    from gcp_publish_cases [OF np, of genv] pub agg
    have run: "gcp_main genv ?p =
          (SessionLogin # fst (publish (gcp_smc genv) iplists),
           snd (publish (gcp_smc genv) iplists :: gcp_event list \<times> outcome))"
      by (auto simp: gcp_instances_report_only)
    with pub have "snd (publish (gcp_smc genv) iplists :: gcp_event list \<times> outcome) = Exit 0"
      by simp
    from publish_complete [OF this] run
    show "publish_calls (fst (gcp_main genv ?p)) = full_replace_calls iplists"
      by simp
  qed
  with agg pr
  show "\<exists>iplists. gcp_aggregate (gcp_instances genv gconfig) = Inr iplists \<and>
            printed_iplists (fst (gcp_main genv gconfig)) = [iplists] \<and>
            (snd (gcp_main genv ?p) = Exit 0 \<longrightarrow>
               publish_calls (fst (gcp_main genv ?p)) = full_replace_calls iplists)"
    by blast
next
  assume r: "az_report_only zconfig"
  show "logins (fst (azure_main zenv zconfig)) = []"
    and "publish_calls (fst (azure_main zenv zconfig)) = []"
    and "printed_iplists (fst (azure_main zenv zconfig)) = []"
    using azure_report_quiet [OF r] by simp_all
qed

lemma sample_aws_iplists:
  "aws_iplists 5 (sample_aws_env smc) (sample_aws_config 1 r) =
     [(''env_prod'', [Some ''10.0.0.1'', Some ''10.0.0.3'']),
      (''team_infra'', [Some ''10.0.0.1'']),
      (''untagged-aws-us-east-1a'', [Some ''10.0.0.2''])]"
proof -
  have cfg: "aws_add_batches (sample_aws_config 1 r) = aws_add_batches (sample_aws_config 1 True)"
    using aws_add_batches_report_only [where config = "sample_aws_config 1 True" and b = r]
    by (simp add: sample_aws_config_def fun_eq_iff)
  have listing: "aws_listing 5 (sample_aws_env smc) (sample_aws_config 1 r) =
      describe_instances_all 5 (paged_client [raw_vm1, raw_vm2, raw_vm3]) [] 1"
    by (simp add: aws_listing_def aws_client_def aws_states_def sample_aws_env_def
        sample_aws_config_def truthy_def)
  have "aws_add_batches (sample_aws_config 1 True)
      [[normalize_instance raw_vm1], [normalize_instance raw_vm2], [normalize_instance raw_vm3]] [] =
     [(''env_prod'', [Some ''10.0.0.1'', Some ''10.0.0.3'']),
      (''team_infra'', [Some ''10.0.0.1'']),
      (''untagged-aws-us-east-1a'', [Some ''10.0.0.2''])]"
    by code_simp
  then show ?thesis
    by (simp add: aws_iplists_def listing sample_pages_1 cfg)
qed

theorem C4_report_only_witness:
  "aws_report_only (sample_aws_config 1 True) \<and>
   snd (aws_main 5 (sample_aws_env ok_smc) (sample_aws_config 1 True)) = Exit 0 \<and>
   logins (fst (aws_main 5 (sample_aws_env ok_smc) (sample_aws_config 1 True))) = [] \<and>
   publish_calls (fst (aws_main 5 (sample_aws_env ok_smc) (sample_aws_config 1 True))) = [] \<and>
   printed_iplists (fst (aws_main 5 (sample_aws_env ok_smc) (sample_aws_config 1 True))) =
     [[(''env_prod'', [Some ''10.0.0.1'', Some ''10.0.0.3'']),
       (''team_infra'', [Some ''10.0.0.1'']),
       (''untagged-aws-us-east-1a'', [Some ''10.0.0.2''])]] \<and>
   snd (aws_main 5 (sample_aws_env ok_smc) (sample_aws_config 1 False)) = Exit 0 \<and>
   publish_calls (fst (aws_main 5 (sample_aws_env ok_smc) (sample_aws_config 1 False))) =
     [UpdateOrCreate ''env_prod'' [Some ''10.0.0.1'', Some ''10.0.0.3''] False,
      UpdateOrCreate ''team_infra'' [Some ''10.0.0.1''] False,
      UpdateOrCreate ''untagged-aws-us-east-1a'' [Some ''10.0.0.2''] False] \<and>
   gcp_report_only (sample_gcp_config None True) \<and>
   logins (fst (gcp_main (sample_gcp_env [gcp_web, gcp_plain] ok_smc) (sample_gcp_config None True))) = [] \<and>
   az_report_only (sample_azure_config True) \<and>
   printed_iplists (fst (azure_main (sample_azure_env ok_smc) (sample_azure_config True))) = []"
proof -
  let ?e = "sample_aws_env ok_smc"
  let ?r = "sample_aws_config 1 True"
  let ?p = "sample_aws_config 1 False"
  let ?ge = "sample_gcp_env [gcp_web, gcp_plain] ok_smc"
  have r: "aws_report_only ?r" by (simp add: sample_aws_config_def)
  have p: "?r\<lparr>aws_report_only := False\<rparr> = ?p" by (simp add: sample_aws_config_def)
  have ok: "snd (aws_main 5 ?e ?r) = Exit 0" by code_simp
  have pub: "snd (aws_main 5 ?e ?p) = Exit 0" by code_simp
  have gr: "gcp_report_only (sample_gcp_config None True)" by (simp add: sample_gcp_config_def)
  have zr: "az_report_only (sample_azure_config True)" by (simp add: sample_azure_config_def)
  note c = C4_report_only [of ?r 5 ?e "sample_gcp_config None True" ?ge
      "sample_azure_config True" "sample_azure_env ok_smc"]
  have quiet: "logins (fst (aws_main 5 ?e ?r)) = [] \<and> publish_calls (fst (aws_main 5 ?e ?r)) = []"
    using c r by blast
  have printed: "printed_iplists (fst (aws_main 5 ?e ?r)) = [aws_iplists 5 ?e ?r]"
    using c r ok by blast
  have sent: "publish_calls (fst (aws_main 5 ?e ?p)) = full_replace_calls (aws_iplists 5 ?e ?r)"
    using c r ok pub unfolding p by blast
  have g: "logins (fst (gcp_main ?ge (sample_gcp_config None True))) = []"
    using c gr by blast
  have z: "printed_iplists (fst (azure_main (sample_azure_env ok_smc) (sample_azure_config True))) = []"
    using c zr by blast
  show ?thesis
    using r ok pub gr zr quiet printed sent g z by (simp add: sample_aws_iplists)
qed

text \<open>
  As the specification states it, the property fails on the Azure script: its report run on the sample
  inventory ends with exit code 0 and has printed the inventory only, while the
  publishing run on the same inventory sends two groups.
\<close>

theorem C4_counterexample:
  "snd (azure_main (sample_azure_env ok_smc) (sample_azure_config True)) = Exit 0 \<and>
   printed_iplists (fst (azure_main (sample_azure_env ok_smc) (sample_azure_config True))) = [] \<and>
   length (fst (azure_main (sample_azure_env ok_smc) (sample_azure_config True))) = 1 \<and>
   publish_calls (fst (azure_main (sample_azure_env ok_smc) (sample_azure_config False))) =
     [UpdateOrCreate ''some_host_type'' [''10.1.0.4''] False,
      UpdateOrCreate ''some_other_tag_with_value_value_for_named_tag'' [''10.1.0.4''] False]"
  by code_simp

section \<open>Publishing\<close>





text \<open>
  A publishing run whose VPC discovery, login and listing succeed reaches the publish
  loop: its trace is the login, the lines of the aggregation and the trace of the loop on
  the dictionary, and it ends as the loop ends.
\<close>

lemma aws_publish_reached:
  "\<not> aws_report_only config \<Longrightarrow>
   aws_skip_vpc_discovery config \<or>
     snd (describe_vpc_all fuel (aws_client env config) (aws_page_size config)) = Exhausted \<Longrightarrow>
   session_login (aws_smc env) = None \<Longrightarrow>
   snd (aws_listing fuel env config) = Exhausted \<Longrightarrow>
     aws_main fuel env config =
       (SessionLogin # fst (publish (aws_smc env) (aws_iplists fuel env config)),
        snd (publish (aws_smc env) (aws_iplists fuel env config) :: aws_event list \<times> outcome))"
  by (auto simp: aws_main_def Let_def split: prod.splits)

lemma azure_publish_reached:
  "\<not> az_report_only config \<Longrightarrow>
   azure_subscriptions env config \<noteq> [] \<Longrightarrow>
   collect_subscriptions env (azure_subscriptions env config) [] = Inr result \<Longrightarrow>
   session_login (az_smc env) = None \<Longrightarrow>
     azure_main env config =
       (SessionLogin
          # map (\<lambda>(subscription, vms). PrintLine (''Operating on subscription: '' @ subscription))
              result
          @ fst (publish (az_smc env) (azure_add_result result [])),
        snd (publish (az_smc env) (azure_add_result result []) :: azure_event list \<times> outcome))"
  by (auto simp: azure_main_def Let_def split: prod.splits)

lemma gcp_publish_reached:
  "\<not> gcp_report_only config \<Longrightarrow>
   session_login (gcp_smc env) = None \<Longrightarrow>
   gcp_aggregate (gcp_instances env config) = Inr iplists \<Longrightarrow>
     gcp_main env config =
       (SessionLogin # fst (publish (gcp_smc env) iplists),
        snd (publish (gcp_smc env) iplists :: gcp_event list \<times> outcome))"
  by (auto simp: gcp_main_def Let_def split: prod.splits)


lemma sample_aws_listing:
  "aws_listing 5 (sample_aws_env smc) (sample_aws_config 1 r) =
     ([[normalize_instance raw_vm1], [normalize_instance raw_vm2], [normalize_instance raw_vm3]],
      Exhausted)"
  by (simp add: aws_listing_def aws_client_def aws_states_def sample_aws_env_def
      sample_aws_config_def truthy_def sample_pages_1)

lemma sample_azure_subscriptions:
  "azure_subscriptions (sample_azure_env smc) (sample_azure_config r) = [''sub-1'']"
  by (simp add: azure_subscriptions_def sample_azure_env_def sample_azure_config_def)

lemma sample_azure_collect:
  "collect_subscriptions (sample_azure_env smc) [''sub-1''] [] =
     Inr [(''sub-1'',
           [\<lparr>az_name = ''machine'', az_vm_id = ''780d7c49'', az_tags = [],
             az_interface_ids = [(''machine37_z1'', ''Hosts_Resources'')],
             az_private_address = [''10.0.0.4'']\<rparr>,
            \<lparr>az_name = ''windows'', az_vm_id = ''686b60a0'',
             az_tags = [(''some_host_type'', ''''),
                        (''some_other_tag_with_value'', ''value_for_named_tag'')],
             az_interface_ids = [(''windows152_z1'', ''Hosts_Resources'')],
             az_private_address = [''10.1.0.4'']\<rparr>])]"
proof -
  have vms: "virtual_machines_list_all (sample_azure_env smc) ''sub-1'' = [azure_machine, azure_windows]"
    by (simp add: sample_azure_env_def)
  have m: "get_virtual_machine_details (sample_azure_env smc) ''sub-1'' azure_machine =
      get_virtual_machine_details (sample_azure_env ok_smc) ''sub-1'' azure_machine"
    and w: "get_virtual_machine_details (sample_azure_env smc) ''sub-1'' azure_windows =
      get_virtual_machine_details (sample_azure_env ok_smc) ''sub-1'' azure_windows"
    by (simp_all add: get_virtual_machine_details_def azure_machine_def azure_windows_def
        get_private_address_def sample_azure_env_def Let_def)
  have mv: "get_virtual_machine_details (sample_azure_env ok_smc) ''sub-1'' azure_machine =
      Inr \<lparr>az_name = ''machine'', az_vm_id = ''780d7c49'', az_tags = [],
             az_interface_ids = [(''machine37_z1'', ''Hosts_Resources'')],
             az_private_address = [''10.0.0.4'']\<rparr>"
    by code_simp
  have wv: "get_virtual_machine_details (sample_azure_env ok_smc) ''sub-1'' azure_windows =
      Inr \<lparr>az_name = ''windows'', az_vm_id = ''686b60a0'',
             az_tags = [(''some_host_type'', ''''),
                        (''some_other_tag_with_value'', ''value_for_named_tag'')],
             az_interface_ids = [(''windows152_z1'', ''Hosts_Resources'')],
             az_private_address = [''10.1.0.4'']\<rparr>"
    by code_simp
  show ?thesis
    by (simp add: vms m w mv wv)
qed

lemma sample_gcp_aggregate:
  "gcp_aggregate (gcp_instances (sample_gcp_env [gcp_web, gcp_plain] smc) (sample_gcp_config None r)) =
     Inr [(''env_prod'', [''10.2.0.2'']), (''canary'', [''10.2.0.2''])]"
proof -
  have "gcp_instances (sample_gcp_env [gcp_web, gcp_plain] smc) (sample_gcp_config None r) =
      gcp_instances (sample_gcp_env [gcp_web, gcp_plain] ok_smc) (sample_gcp_config None True)"
    by (simp add: gcp_instances_def sample_gcp_env_def sample_gcp_config_def truthy_def
        list_all_instances_def)
  moreover have "gcp_aggregate
      (gcp_instances (sample_gcp_env [gcp_web, gcp_plain] ok_smc) (sample_gcp_config None True)) =
     Inr [(''env_prod'', [''10.2.0.2'']), (''canary'', [''10.2.0.2''])]"
    by code_simp
  ultimately show ?thesis by simp
qed



text \<open>
  C7 (as amended). The scripts do not catch a failure of \<^verbatim>\<open>update_or_create\<close>. In each
  of them, for a publishing run whose login and listing succeed: when the call fails for
  a group of the dictionary and the SMC accepts the groups before it, the run ends with
  the exception of that call, and it has called \<^verbatim>\<open>update_or_create\<close> for the groups up
  to and including the failing one, in order, and for none of the groups after it.
\<close>

theorem C7_publish_failure:
  "(\<not> aws_report_only config \<and>
    (aws_skip_vpc_discovery config \<or>
       snd (describe_vpc_all fuel (aws_client env config) (aws_page_size config)) = Exhausted) \<and>
    session_login (aws_smc env) = None \<and>
    snd (aws_listing fuel env config) = Exhausted \<and>
    aws_iplists fuel env config = before @ (name, addrs) # rest \<and>
    update_or_create (aws_smc env) name addrs False = Inl e \<and>
    list_all (\<lambda>(k, v). \<exists>h. update_or_create (aws_smc env) k v False = Inr h) before \<longrightarrow>
      snd (aws_main fuel env config) = Raised e \<and>
      publish_calls (fst (aws_main fuel env config)) =
        full_replace_calls (before @ [(name, addrs)])) \<and>
   (\<not> az_report_only zconfig \<and>
    azure_subscriptions zenv zconfig \<noteq> [] \<and>
    collect_subscriptions zenv (azure_subscriptions zenv zconfig) [] = Inr result \<and>
    session_login (az_smc zenv) = None \<and>
    azure_add_result result [] = before' @ (name', addrs') # rest' \<and>
    update_or_create (az_smc zenv) name' addrs' False = Inl e' \<and>
    list_all (\<lambda>(k, v). \<exists>h. update_or_create (az_smc zenv) k v False = Inr h) before' \<longrightarrow>
      snd (azure_main zenv zconfig) = Raised e' \<and>
      publish_calls (fst (azure_main zenv zconfig)) =
        full_replace_calls (before' @ [(name', addrs')])) \<and>
   (\<not> gcp_report_only gconfig \<and>
    session_login (gcp_smc genv) = None \<and>
    gcp_aggregate (gcp_instances genv gconfig) = Inr (before'' @ (name'', addrs'') # rest'') \<and>
    update_or_create (gcp_smc genv) name'' addrs'' False = Inl e'' \<and>
    list_all (\<lambda>(k, v). \<exists>h. update_or_create (gcp_smc genv) k v False = Inr h) before'' \<longrightarrow>
      snd (gcp_main genv gconfig) = Raised e'' \<and>
      publish_calls (fst (gcp_main genv gconfig)) =
        full_replace_calls (before'' @ [(name'', addrs'')]))"
proof -
  have a: "\<not> aws_report_only config \<and>
    (aws_skip_vpc_discovery config \<or>
       snd (describe_vpc_all fuel (aws_client env config) (aws_page_size config)) = Exhausted) \<and>
    session_login (aws_smc env) = None \<and>
    snd (aws_listing fuel env config) = Exhausted \<and>
    aws_iplists fuel env config = before @ (name, addrs) # rest \<and>
    update_or_create (aws_smc env) name addrs False = Inl e \<and>
    list_all (\<lambda>(k, v). \<exists>h. update_or_create (aws_smc env) k v False = Inr h) before \<longrightarrow>
      snd (aws_main fuel env config) = Raised e \<and>
      publish_calls (fst (aws_main fuel env config)) =
        full_replace_calls (before @ [(name, addrs)])"
  proof (intro impI, elim conjE)
    assume np: "\<not> aws_report_only config"
      and vpc: "aws_skip_vpc_discovery config \<or>
          snd (describe_vpc_all fuel (aws_client env config) (aws_page_size config)) = Exhausted"
      and login: "session_login (aws_smc env) = None"
      and listing: "snd (aws_listing fuel env config) = Exhausted"
      and agg: "aws_iplists fuel env config = before @ (name, addrs) # rest"
      and bad: "update_or_create (aws_smc env) name addrs False = Inl e"
      and good: "list_all (\<lambda>(k, v). \<exists>h. update_or_create (aws_smc env) k v False = Inr h) before"
    have "snd (publish (aws_smc env) (before @ (name, addrs) # rest) :: aws_event list \<times> outcome) = Raised e \<and>
        publish_calls (fst (publish (aws_smc env) (before @ (name, addrs) # rest) :: aws_event list \<times> outcome)) =
          full_replace_calls (before @ [(name, addrs)])"
      by (rule publish_stops [OF bad good])
    then show "snd (aws_main fuel env config) = Raised e \<and>
        publish_calls (fst (aws_main fuel env config)) =
          full_replace_calls (before @ [(name, addrs)])"
      using aws_publish_reached [OF np vpc login listing] by (simp add: agg)
  qed
  have z: "\<not> az_report_only zconfig \<and>
    azure_subscriptions zenv zconfig \<noteq> [] \<and>
    collect_subscriptions zenv (azure_subscriptions zenv zconfig) [] = Inr result \<and>
    session_login (az_smc zenv) = None \<and>
    azure_add_result result [] = before' @ (name', addrs') # rest' \<and>
    update_or_create (az_smc zenv) name' addrs' False = Inl e' \<and>
    list_all (\<lambda>(k, v). \<exists>h. update_or_create (az_smc zenv) k v False = Inr h) before' \<longrightarrow>
      snd (azure_main zenv zconfig) = Raised e' \<and>
      publish_calls (fst (azure_main zenv zconfig)) =
        full_replace_calls (before' @ [(name', addrs')])"
  proof (intro impI, elim conjE)
    assume np: "\<not> az_report_only zconfig"
      and subs: "azure_subscriptions zenv zconfig \<noteq> []"
      and res: "collect_subscriptions zenv (azure_subscriptions zenv zconfig) [] = Inr result"
      and login: "session_login (az_smc zenv) = None"
      and agg: "azure_add_result result [] = before' @ (name', addrs') # rest'"
      and bad: "update_or_create (az_smc zenv) name' addrs' False = Inl e'"
      and good: "list_all (\<lambda>(k, v). \<exists>h. update_or_create (az_smc zenv) k v False = Inr h) before'"
    have "snd (publish (az_smc zenv) (before' @ (name', addrs') # rest') :: azure_event list \<times> outcome) = Raised e' \<and>
        publish_calls (fst (publish (az_smc zenv) (before' @ (name', addrs') # rest') :: azure_event list \<times> outcome)) =
          full_replace_calls (before' @ [(name', addrs')])"
      by (rule publish_stops [OF bad good])
    then show "snd (azure_main zenv zconfig) = Raised e' \<and>
        publish_calls (fst (azure_main zenv zconfig)) =
          full_replace_calls (before' @ [(name', addrs')])"
      using azure_publish_reached [OF np subs res login] by (simp add: agg)
  qed
  have g: "\<not> gcp_report_only gconfig \<and>
    session_login (gcp_smc genv) = None \<and>
    gcp_aggregate (gcp_instances genv gconfig) = Inr (before'' @ (name'', addrs'') # rest'') \<and>
    update_or_create (gcp_smc genv) name'' addrs'' False = Inl e'' \<and>
    list_all (\<lambda>(k, v). \<exists>h. update_or_create (gcp_smc genv) k v False = Inr h) before'' \<longrightarrow>
      snd (gcp_main genv gconfig) = Raised e'' \<and>
      publish_calls (fst (gcp_main genv gconfig)) =
        full_replace_calls (before'' @ [(name'', addrs'')])"
  proof (intro impI, elim conjE)
    assume np: "\<not> gcp_report_only gconfig"
      and login: "session_login (gcp_smc genv) = None"
      and agg: "gcp_aggregate (gcp_instances genv gconfig) = Inr (before'' @ (name'', addrs'') # rest'')"
      and bad: "update_or_create (gcp_smc genv) name'' addrs'' False = Inl e''"
      and good: "list_all (\<lambda>(k, v). \<exists>h. update_or_create (gcp_smc genv) k v False = Inr h) before''"
    have "snd (publish (gcp_smc genv) (before'' @ (name'', addrs'') # rest'') :: gcp_event list \<times> outcome) = Raised e'' \<and>
        publish_calls (fst (publish (gcp_smc genv) (before'' @ (name'', addrs'') # rest'') :: gcp_event list \<times> outcome)) =
          full_replace_calls (before'' @ [(name'', addrs'')])"
      by (rule publish_stops [OF bad good])
    then show "snd (gcp_main genv gconfig) = Raised e'' \<and>
        publish_calls (fst (gcp_main genv gconfig)) =
          full_replace_calls (before'' @ [(name'', addrs'')])"
      using gcp_publish_reached [OF np login agg] by simp
  qed
  show ?thesis
    using a z g by blast
qed

theorem C7_publish_failure_witness:
  "aws_iplists 5 (sample_aws_env (failing_smc ''team_infra'')) (sample_aws_config 1 False) =
     [(''env_prod'', [Some ''10.0.0.1'', Some ''10.0.0.3''])] @
     (''team_infra'', [Some ''10.0.0.1'']) # [(''untagged-aws-us-east-1a'', [Some ''10.0.0.2''])] \<and>
   snd (aws_main 5 (sample_aws_env (failing_smc ''team_infra'')) (sample_aws_config 1 False)) =
     Raised SMCError \<and>
   publish_calls (fst (aws_main 5 (sample_aws_env (failing_smc ''team_infra'')) (sample_aws_config 1 False))) =
     [UpdateOrCreate ''env_prod'' [Some ''10.0.0.1'', Some ''10.0.0.3''] False,
      UpdateOrCreate ''team_infra'' [Some ''10.0.0.1''] False] \<and>
   snd (azure_main (sample_azure_env (failing_smc ''some_host_type'')) (sample_azure_config False)) =
     Raised SMCError \<and>
   publish_calls (fst (azure_main (sample_azure_env (failing_smc ''some_host_type''))
       (sample_azure_config False))) =
     [UpdateOrCreate ''some_host_type'' [''10.1.0.4''] False] \<and>
   snd (gcp_main (sample_gcp_env [gcp_web, gcp_plain] (failing_smc ''canary''))
       (sample_gcp_config None False)) = Raised SMCError \<and>
   publish_calls (fst (gcp_main (sample_gcp_env [gcp_web, gcp_plain] (failing_smc ''canary''))
       (sample_gcp_config None False))) =
     [UpdateOrCreate ''env_prod'' [''10.2.0.2''] False,
      UpdateOrCreate ''canary'' [''10.2.0.2''] False]"
proof -
  let ?e = "sample_aws_env (failing_smc ''team_infra'')"
  let ?p = "sample_aws_config 1 False"
  let ?before = "[(''env_prod'', [Some ''10.0.0.1'', Some ''10.0.0.3''])]"
  let ?rest = "[(''untagged-aws-us-east-1a'', [Some ''10.0.0.2''])]"
  let ?ze = "sample_azure_env (failing_smc ''some_host_type'')"
  let ?zp = "sample_azure_config False"
  let ?result = "[(''sub-1'',
           [\<lparr>az_name = ''machine'', az_vm_id = ''780d7c49'', az_tags = [],
             az_interface_ids = [(''machine37_z1'', ''Hosts_Resources'')],
             az_private_address = [''10.0.0.4'']\<rparr>,
            \<lparr>az_name = ''windows'', az_vm_id = ''686b60a0'',
             az_tags = [(''some_host_type'', ''''),
                        (''some_other_tag_with_value'', ''value_for_named_tag'')],
             az_interface_ids = [(''windows152_z1'', ''Hosts_Resources'')],
             az_private_address = [''10.1.0.4'']\<rparr>])]"
  let ?zrest = "[(''some_other_tag_with_value_value_for_named_tag'', [''10.1.0.4''])]"
  let ?ge = "sample_gcp_env [gcp_web, gcp_plain] (failing_smc ''canary'')"
  let ?gp = "sample_gcp_config None False"
  let ?gbefore = "[(''env_prod'', [''10.2.0.2''])]"
  note c = C7_publish_failure [of ?p 5 ?e ?before "''team_infra''" "[Some ''10.0.0.1'']" ?rest SMCError
      ?zp ?ze ?result "[]" "''some_host_type''" "[''10.1.0.4'']" ?zrest SMCError
      ?gp ?ge ?gbefore "''canary''" "[''10.2.0.2'']" "[]" SMCError]
  \<comment> \<open>AWS\<close>
  have a_np: "\<not> aws_report_only ?p" and a_vpc: "aws_skip_vpc_discovery ?p"
    by (simp_all add: sample_aws_config_def)
  have a_login: "session_login (aws_smc ?e) = None"
    by (simp add: sample_aws_env_def failing_smc_def)
  have a_listing: "snd (aws_listing 5 ?e ?p) = Exhausted"
    by (simp add: sample_aws_listing)
  have a_agg: "aws_iplists 5 ?e ?p = ?before @ (''team_infra'', [Some ''10.0.0.1'']) # ?rest"
    by (simp add: sample_aws_iplists)
  have a_bad: "update_or_create (aws_smc ?e) ''team_infra'' [Some ''10.0.0.1''] False = Inl SMCError"
    by (simp add: sample_aws_env_def failing_smc_def)
  have a_good: "list_all (\<lambda>(k, v). \<exists>h. update_or_create (aws_smc ?e) k v False = Inr h) ?before"
    by (simp add: sample_aws_env_def failing_smc_def)
  have a: "snd (aws_main 5 ?e ?p) = Raised SMCError \<and>
      publish_calls (fst (aws_main 5 ?e ?p)) =
        full_replace_calls (?before @ [(''team_infra'', [Some ''10.0.0.1''])])"
    using c a_np a_vpc a_login a_listing a_agg a_bad a_good by blast
  \<comment> \<open>Azure\<close>
  have z_np: "\<not> az_report_only ?zp"
    by (simp add: sample_azure_config_def)
  have z_subs: "azure_subscriptions ?ze ?zp \<noteq> []"
    by (simp add: sample_azure_subscriptions)
  have z_res: "collect_subscriptions ?ze (azure_subscriptions ?ze ?zp) [] = Inr ?result"
    unfolding sample_azure_subscriptions by (rule sample_azure_collect)
  have z_login: "session_login (az_smc ?ze) = None"
    by (simp add: sample_azure_env_def failing_smc_def)
  have z_agg: "azure_add_result ?result [] = [] @ (''some_host_type'', [''10.1.0.4'']) # ?zrest"
    by code_simp
  have z_bad: "update_or_create (az_smc ?ze) ''some_host_type'' [''10.1.0.4''] False = Inl SMCError"
    by (simp add: sample_azure_env_def failing_smc_def)
  have z_good: "list_all (\<lambda>(k, v). \<exists>h. update_or_create (az_smc ?ze) k v False = Inr h) []"
    by simp
  have z: "snd (azure_main ?ze ?zp) = Raised SMCError \<and>
      publish_calls (fst (azure_main ?ze ?zp)) =
        full_replace_calls ([] @ [(''some_host_type'', [''10.1.0.4''])])"
    using c z_np z_subs z_res z_login z_agg z_bad z_good by blast
  \<comment> \<open>GCP\<close>
  have g_np: "\<not> gcp_report_only ?gp"
    by (simp add: sample_gcp_config_def)
  have g_login: "session_login (gcp_smc ?ge) = None"
    by (simp add: sample_gcp_env_def failing_smc_def)
  have g_agg: "gcp_aggregate (gcp_instances ?ge ?gp) = Inr (?gbefore @ (''canary'', [''10.2.0.2'']) # [])"
    by (simp add: sample_gcp_aggregate)
  have g_bad: "update_or_create (gcp_smc ?ge) ''canary'' [''10.2.0.2''] False = Inl SMCError"
    by (simp add: sample_gcp_env_def failing_smc_def)
  have g_good: "list_all (\<lambda>(k, v). \<exists>h. update_or_create (gcp_smc ?ge) k v False = Inr h) ?gbefore"
    by (simp add: sample_gcp_env_def failing_smc_def)
  have g: "snd (gcp_main ?ge ?gp) = Raised SMCError \<and>
      publish_calls (fst (gcp_main ?ge ?gp)) =
        full_replace_calls (?gbefore @ [(''canary'', [''10.2.0.2''])])"
    using c g_np g_login g_agg g_bad g_good by blast
  show ?thesis
    using a_agg a z g by simp
qed

text \<open>
  As the specification states it, the property fails when the SMC refuses the first
  group: the run ends with the exception after that one call, and the two other groups
  of the dictionary are never sent.
\<close>

theorem C7_counterexample:
  "aws_iplists 5 (sample_aws_env (failing_smc ''env_prod'')) (sample_aws_config 1 False) =
     [(''env_prod'', [Some ''10.0.0.1'', Some ''10.0.0.3'']),
      (''team_infra'', [Some ''10.0.0.1'']),
      (''untagged-aws-us-east-1a'', [Some ''10.0.0.2''])] \<and>
   aws_main 5 (sample_aws_env (failing_smc ''env_prod'')) (sample_aws_config 1 False) =
     ([SessionLogin, UpdateOrCreate ''env_prod'' [Some ''10.0.0.1'', Some ''10.0.0.3''] False],
      Raised SMCError)"
  by code_simp

section \<open>Instances without addresses\<close>

text \<open>
  In the AWS script an instance without addresses changes no address list, wherever it
  stands in the listing: the dictionary has, for every group name, the addresses it has
  when the instance is left out. (The instance can still add a group without addresses.)
\<close>

lemma aws_add_instance_same_addresses:
  assumes "\<And>k. addresses_of m k = addresses_of m' k"
  shows "addresses_of (aws_add_instance config inst m) k =
         addresses_of (aws_add_instance config inst m') k"
  using assms
  by (simp add: aws_add_instance_def aws_add_tags_fold addresses_of_fold
      addresses_of_setdefault_extend)

lemma aws_add_batch_same_addresses:
  "(\<And>k. addresses_of m k = addresses_of m' k) \<Longrightarrow>
     addresses_of (aws_add_batch config batch m) k = addresses_of (aws_add_batch config batch m') k"
proof (induction batch arbitrary: m m' k)
  case Nil
  then show ?case by simp
next
  case (Cons inst batch)
  show ?case
    using Cons.IH [of "aws_add_instance config inst m" "aws_add_instance config inst m'" k]
      aws_add_instance_same_addresses [of m m' config inst] Cons.prems
    by simp
qed

lemma aws_empty_instance_adds_nothing:
  "aws_private_address inst = [] \<Longrightarrow>
     addresses_of (aws_add_instance config inst m) k = addresses_of m k"
  by (simp add: aws_add_instance_def aws_add_tags_fold addresses_of_fold
      addresses_of_setdefault_extend)

lemma aws_empty_instance_absent:
  assumes "aws_private_address inst = []"
  shows "addresses_of (aws_add_batches config (before @ [xs @ inst # ys] @ after) []) k =
         addresses_of (aws_add_batches config (before @ [xs @ ys] @ after) []) k"
proof -
  let ?m = "aws_add_batch config (concat before @ xs) []"
  have "addresses_of (aws_add_batch config (ys @ concat after) (aws_add_instance config inst ?m)) k =
        addresses_of (aws_add_batch config (ys @ concat after) ?m) k"
    by (rule aws_add_batch_same_addresses) (rule aws_empty_instance_adds_nothing [OF assms])
  then show ?thesis
    by (simp add: aws_add_batches_concat aws_add_batch_append)
qed

text \<open>
  C9 fails in the GCP script. \<^verbatim>\<open>list_all_instances\<close> creates \<^verbatim>\<open>hostdata\<close> with an empty
  list under the key \<^verbatim>\<open>private_addresses\<close>, but collects the addresses, and the
  aggregation reads them, under the key \<^verbatim>\<open>private_address\<close>, which an instance without
  network interfaces never gets. For such an instance with a label the aggregation
  raises \<^verbatim>\<open>TypeError\<close>: the run ends there, in report mode too, and no group is
  published.
\<close>

theorem C9_gcp_no_interface:
  "network_interfaces gcp_detached = [] \<and>
   hd_private_addresses (make_hostdata gcp_detached) = [] \<and>
   hd_private_address (make_hostdata gcp_detached) = None \<and>
   gcp_add_hosts [make_hostdata gcp_detached] [] = Inl TypeError \<and>
   gcp_aggregate (list_all_instances (sample_gcp_env [gcp_web, gcp_detached] ok_smc) ''fpngf'' 100) =
     Inl TypeError \<and>
   snd (gcp_main (sample_gcp_env [gcp_web, gcp_detached] ok_smc) (sample_gcp_config None True)) =
     Raised TypeError \<and>
   gcp_main (sample_gcp_env [gcp_web, gcp_detached] ok_smc) (sample_gcp_config None False) =
     ([SessionLogin], Raised TypeError) \<and>
   gcp_aggregate (list_all_instances (sample_gcp_env [gcp_web] ok_smc) ''fpngf'' 100) =
     Inr [(''env_prod'', [''10.2.0.2'']), (''canary'', [''10.2.0.2''])]"
  by code_simp

section \<open>The zone argument of the GCP script\<close>

text \<open>
  C10 (as amended). When \<^verbatim>\<open>--zone\<close> is given and not empty, the inventory is what
  \<^verbatim>\<open>list_instances\<close> returns, the call \<^verbatim>\<open>instances.items()\<close> of the aggregation fails on
  it, and the run ends with an exception before it has built a group: it prints no
  dictionary and never calls \<^verbatim>\<open>update_or_create\<close>. So a run that publishes a group,
  or ends with exit code 0, had no \<^verbatim>\<open>--zone\<close> or an empty one: the script tests
  \<^verbatim>\<open>if config.zone:\<close>, which an empty string does not pass.
\<close>

theorem C10_zone_fails:
  "(truthy (gcp_zone config) \<longrightarrow>
      gcp_instances env config =
        list_instances env (gcp_project_id config)
          (case gcp_zone config of Some z \<Rightarrow> z | None \<Rightarrow> []) \<and>
      gcp_aggregate (gcp_instances env config) = Inl NotAMapping \<and>
      (\<exists>e. snd (gcp_main env config) = Raised e) \<and>
      (gcp_report_only config \<or> session_login (gcp_smc env) = None \<longrightarrow>
         snd (gcp_main env config) = Raised NotAMapping) \<and>
      publish_calls (fst (gcp_main env config)) = [] \<and>
      printed_iplists (fst (gcp_main env config)) = []) \<and>
   (publish_calls (fst (gcp_main env config)) \<noteq> [] \<or> snd (gcp_main env config) = Exit 0 \<longrightarrow>
      \<not> truthy (gcp_zone config)) \<and>
   (truthy (gcp_zone config) \<longleftrightarrow> (\<exists>z. gcp_zone config = Some z \<and> z \<noteq> []))"
proof -
  have t: "truthy (gcp_zone config) \<longleftrightarrow> (\<exists>z. gcp_zone config = Some z \<and> z \<noteq> [])"
    by (simp add: truthy_def split: option.splits)
  have inv: "truthy (gcp_zone config) \<Longrightarrow>
      gcp_instances env config =
        list_instances env (gcp_project_id config)
          (case gcp_zone config of Some z \<Rightarrow> z | None \<Rightarrow> [])"
    by (simp add: gcp_instances_def)
  have agg: "truthy (gcp_zone config) \<Longrightarrow> gcp_aggregate (gcp_instances env config) = Inl NotAMapping"
    by (simp add: inv list_instances_def gcp_aggregate_def)
  have run: "truthy (gcp_zone config) \<Longrightarrow>
      (\<exists>e. snd (gcp_main env config) = Raised e) \<and>
      (gcp_report_only config \<or> session_login (gcp_smc env) = None \<longrightarrow>
         snd (gcp_main env config) = Raised NotAMapping) \<and>
      publish_calls (fst (gcp_main env config)) = [] \<and>
      printed_iplists (fst (gcp_main env config)) = []"
    using agg by (auto simp: gcp_main_def Let_def split: option.splits)
  have only: "publish_calls (fst (gcp_main env config)) \<noteq> [] \<or> snd (gcp_main env config) = Exit 0 \<longrightarrow>
      \<not> truthy (gcp_zone config)"
    using run by auto
  show ?thesis
    using t inv agg run only by blast
qed

theorem C10_zone_fails_witness:
  "truthy (gcp_zone (sample_gcp_config (Some ''us-west3-b'') False)) \<and>
   gcp_aggregate (gcp_instances (sample_gcp_env [gcp_web, gcp_plain] ok_smc)
       (sample_gcp_config (Some ''us-west3-b'') False)) = Inl NotAMapping \<and>
   snd (gcp_main (sample_gcp_env [gcp_web, gcp_plain] ok_smc)
       (sample_gcp_config (Some ''us-west3-b'') False)) = Raised NotAMapping \<and>
   publish_calls (fst (gcp_main (sample_gcp_env [gcp_web, gcp_plain] ok_smc)
       (sample_gcp_config (Some ''us-west3-b'') False))) = [] \<and>
   fst (gcp_main (sample_gcp_env [gcp_web, gcp_plain] ok_smc)
       (sample_gcp_config (Some ''us-west3-b'') False)) = [SessionLogin]"
proof -
  let ?e = "sample_gcp_env [gcp_web, gcp_plain] ok_smc"
  let ?c = "sample_gcp_config (Some ''us-west3-b'') False"
  have z: "truthy (gcp_zone ?c)" by (simp add: sample_gcp_config_def truthy_def)
  have l: "session_login (gcp_smc ?e) = None" by (simp add: sample_gcp_env_def ok_smc_def)
  note c = C10_zone_fails [of ?c ?e]
  have a: "gcp_aggregate (gcp_instances ?e ?c) = Inl NotAMapping" using c z by blast
  have r: "snd (gcp_main ?e ?c) = Raised NotAMapping" using c z l by blast
  have p: "publish_calls (fst (gcp_main ?e ?c)) = []" using c z by blast
  have f: "fst (gcp_main ?e ?c) = [SessionLogin]" by code_simp
  show ?thesis using z a r p f by blast
qed

text \<open>
  As the specification states it, the property fails for \<^verbatim>\<open>--zone ''\<close>: the argument is supplied, the
  inventory still comes from \<^verbatim>\<open>list_all_instances\<close>, and the run publishes its groups
  and ends with exit code 0.
\<close>

theorem C10_counterexample:
  "gcp_zone (sample_gcp_config (Some '''') False) = Some '''' \<and>
   gcp_main (sample_gcp_env [gcp_web, gcp_plain] ok_smc) (sample_gcp_config (Some '''') False) =
     ([SessionLogin,
       UpdateOrCreate ''env_prod'' [''10.2.0.2''] False,
       PrintLine ''Operated on iplist env_prod'',
       UpdateOrCreate ''canary'' [''10.2.0.2''] False,
       PrintLine ''Operated on iplist canary''],
      Exit 0)"
  by code_simp

end
